theory Spec2Isabelle
  imports Complex_Main "HOL-Library.AList"
begin

section \<open>Python values\<close>

text \<open>
  Exceptions are values. Only the classes the two scripts or the modelled library calls
  distinguish are named; any other class is \<open>Exception name\<close>.
\<close>

datatype exn = FileNotFoundError | ValueError | IndexError | ShutilError | Exception string

text \<open>
  A Python float. Finite floats are read as the reals they denote (rounding is not
  modelled); \<open>NaN\<close> is kept apart because every comparison with it is false, which decides
  the checkpoint condition of the training loop.
\<close>

datatype pyfloat = NaN | Fin real

fun fgt :: "pyfloat \<Rightarrow> pyfloat \<Rightarrow> bool" where
  "fgt (Fin a) (Fin b) = (b < a)"
| "fgt _ _ = False"

fun flt :: "pyfloat \<Rightarrow> pyfloat \<Rightarrow> bool" where
  "flt (Fin a) (Fin b) = (a < b)"
| "flt _ _ = False"

fun fadd :: "pyfloat \<Rightarrow> pyfloat \<Rightarrow> pyfloat" where
  "fadd (Fin a) (Fin b) = Fin (a + b)"
| "fadd _ _ = NaN"

text \<open>Truthiness of an optional string, as in \<^verbatim>\<open>if flags.save_model_dir:\<close>.\<close>

fun truthy :: "string option \<Rightarrow> bool" where
  "truthy None = False"
| "truthy (Some s) = (s \<noteq> [])"

section \<open>Tensors, batches and library functions\<close>

type_synonym row = "int list"

record 't encoding =
  input_ids :: 't
  attention_mask :: 't
  token_type_ids :: 't

text \<open>A dataset sample is the encoding of one text with its label; a batch stacks the rows.\<close>

type_synonym sample = "row encoding \<times> nat"
type_synonym batch = "(row list) encoding"

record model_output =
  loss :: pyfloat
  logits :: "real list list"

text \<open>\<^verbatim>\<open>logits.argmax(-1)\<close>: for each row the index of its largest entry.\<close>

fun argmax_acc :: "nat \<Rightarrow> real \<Rightarrow> nat \<Rightarrow> real list \<Rightarrow> nat" where
  "argmax_acc best v i [] = best"
| "argmax_acc best v i (x # xs) =
     (if v < x then argmax_acc i x (Suc i) xs else argmax_acc best v (Suc i) xs)"

fun argmax_row :: "real list \<Rightarrow> nat" where
  "argmax_row [] = 0"
| "argmax_row (x # xs) = argmax_acc 0 x 1 xs"

definition argmax_last :: "real list list \<Rightarrow> exn + nat list" where
  "argmax_last lg = (if [] \<in> set lg then Inl IndexError else Inr (map argmax_row lg))"

text \<open>
  \<^verbatim>\<open>sklearn.metrics.accuracy_score\<close>: the fraction of positions at which the two
  sequences agree. Sequences of different length are rejected with \<open>ValueError\<close>; the mean
  over no position at all is \<open>NaN\<close>.
\<close>

definition accuracy_score :: "nat list \<Rightarrow> nat list \<Rightarrow> exn + pyfloat" where
  "accuracy_score y_true y_pred =
     (if length y_true \<noteq> length y_pred then Inl ValueError
      else if y_true = [] then Inr NaN
      else Inr (Fin (real (length (filter (\<lambda>(t, p). t = p) (zip y_true y_pred)))
                     / real (length y_true))))"

section \<open>Programs: state, exceptions and the trace of calls\<close>

datatype phase = Training | Validation

datatype arg = AInt int | AFloat pyfloat | AStr string | AExn exn

text \<open>
  Every call the scripts make on a collaborator leaves one event, in program order.
  \<open>Forward m a l\<close> is a call of the model with the module in training mode \<open>m\<close>, under
  autocast \<open>a\<close>, and with labels passed \<open>l\<close>. \<open>Raised n e\<close> marks the call \<open>n\<close> raising \<open>e\<close>.
\<close>

datatype event =
    WriterOpen string
  | WriterClose
  | AddScalar string pyfloat int
  | ModelTrain
  | ModelEval
  | ZeroGrad
  | Forward bool bool bool
  | ExtendPreds phase "nat list"
  | ExtendLabels phase "nat list"
  | ClipGradNorm pyfloat
  | Backward
  | OptimizerStep
  | LossItem pyfloat
  | LogInfo string "arg list"
  | LogError string "arg list" bool
  | Mkdir string
  | SaveTokenizer string
  | SaveModel string
  | Call string
  | Raised string exn

type_synonym ('s, 'a) prog = "'s \<Rightarrow> (exn + 'a) \<times> event list \<times> 's"

definition ret :: "'a \<Rightarrow> ('s, 'a) prog" where
  "ret a = (\<lambda>s. (Inr a, [], s))"

definition andThen :: "('s, 'a) prog \<Rightarrow> ('a \<Rightarrow> ('s, 'b) prog) \<Rightarrow> ('s, 'b) prog" where
  "andThen m k = (\<lambda>s. case m s of
       (Inl e, evs, s1) \<Rightarrow> (Inl e, evs, s1)
     | (Inr a, evs, s1) \<Rightarrow> (case k a s1 of (r, evs2, s2) \<Rightarrow> (r, evs @ evs2, s2)))"

definition emit :: "event \<Rightarrow> ('s, unit) prog" where
  "emit ev = (\<lambda>s. (Inr (), [ev], s))"

text \<open>A call of a collaborator, which may raise and may change the state.\<close>

definition call :: "string \<Rightarrow> event \<Rightarrow> ('s \<Rightarrow> (exn + 'a) \<times> 's) \<Rightarrow> ('s, 'a) prog" where
  "call name ev f = (\<lambda>s. case f s of
       (Inl e, s1) \<Rightarrow> (Inl e, [ev, Raised name e], s1)
     | (Inr a, s1) \<Rightarrow> (Inr a, [ev], s1))"

text \<open>A call of a modelled library function, which has no state.\<close>

definition pure_call :: "string \<Rightarrow> exn + 'a \<Rightarrow> ('s, 'a) prog" where
  "pure_call name r = (\<lambda>s. case r of
       Inl e \<Rightarrow> (Inl e, [Raised name e], s)
     | Inr a \<Rightarrow> (Inr a, [], s))"

text \<open>\<^verbatim>\<open>for x in xs: body\<close>, with the local variables the body updates passed along.\<close>

fun for_each :: "'a list \<Rightarrow> ('b \<Rightarrow> 'a \<Rightarrow> ('s, 'b) prog) \<Rightarrow> 'b \<Rightarrow> ('s, 'b) prog" where
  "for_each [] body vars = ret vars"
| "for_each (x # xs) body vars = andThen (body vars x) (for_each xs body)"

section \<open>The training loop (\<^verbatim>\<open>utils/train.py\<close>)\<close>

text \<open>
  The model, the optimizer, the two loaders and the tokenizer are objects of the
  frameworks. Their state is a value of an arbitrary type \<open>'f\<close>, and every method the loop
  calls on them is a function on that state that may raise. A loader is read as the finite
  list of \<open>(batch, labels)\<close> pairs that one pass over it yields.
\<close>

record 'f torch =
  model_call :: "bool \<Rightarrow> bool \<Rightarrow> batch \<Rightarrow> nat list option \<Rightarrow> 'f \<Rightarrow> (exn + model_output) \<times> 'f"
  zero_grad :: "'f \<Rightarrow> (exn + unit) \<times> 'f"
  clip_grad_norm :: "pyfloat \<Rightarrow> 'f \<Rightarrow> (exn + unit) \<times> 'f"
  loss_backward :: "'f \<Rightarrow> (exn + unit) \<times> 'f"
  optimizer_step :: "'f \<Rightarrow> (exn + unit) \<times> 'f"
  train_dataloader :: "'f \<Rightarrow> (exn + (batch \<times> nat list) list) \<times> 'f"
  val_dataloader :: "'f \<Rightarrow> (exn + (batch \<times> nat list) list) \<times> 'f"
  path_mkdir :: "string \<Rightarrow> 'f \<Rightarrow> (exn + unit) \<times> 'f"
  tokenizer_save_pretrained :: "string \<Rightarrow> 'f \<Rightarrow> (exn + unit) \<times> 'f"
  model_save_pretrained :: "string \<Rightarrow> 'f \<Rightarrow> (exn + unit) \<times> 'f"

text \<open>The state of a run: the mode of the module and the state of the frameworks.\<close>

record 'f trainer =
  training :: bool
  fw :: 'f

definition on_fw :: "('f \<Rightarrow> (exn + 'a) \<times> 'f) \<Rightarrow> 'f trainer \<Rightarrow> (exn + 'a) \<times> 'f trainer" where
  "on_fw f = (\<lambda>s. case f (fw s) of (r, f1) \<Rightarrow> (r, s\<lparr>fw := f1\<rparr>))"

definition model_train :: "('f trainer, unit) prog" where
  "model_train = (\<lambda>s. (Inr (), [ModelTrain], s\<lparr>training := True\<rparr>))"

definition model_forward ::
  "'f torch \<Rightarrow> bool \<Rightarrow> batch \<Rightarrow> nat list option \<Rightarrow> ('f trainer, model_output) prog" where
  "model_forward env enable_bf16 b labels = (\<lambda>s.
     call ''model'' (Forward (training s) enable_bf16 (labels \<noteq> None))
       (on_fw (model_call env (training s) enable_bf16 b labels)) s)"

record flags =
  save_model_dir :: "string option"

text \<open>Lines 68 to 100: one step on one batch of the training loader.\<close>

definition train_step ::
  "'f torch \<Rightarrow> bool \<Rightarrow> pyfloat \<Rightarrow> int \<Rightarrow> pyfloat \<times> nat list \<times> nat list \<Rightarrow> batch \<times> nat list
     \<Rightarrow> ('f trainer, pyfloat \<times> nat list \<times> nat list) prog" where
  "train_step env enable_bf16 max_grad_norm epoch vars bl =
    (case vars of (running_loss, train_preds, train_labels) \<Rightarrow>
     case bl of (b, labels) \<Rightarrow>
       andThen (call ''optimizer.zero_grad'' ZeroGrad (on_fw (zero_grad env))) (\<lambda>_.
       andThen (model_forward env enable_bf16 b (Some labels)) (\<lambda>out.
       andThen (emit (AddScalar ''Loss/train'' (loss out) epoch)) (\<lambda>_.
       andThen (pure_call ''argmax'' (argmax_last (logits out))) (\<lambda>preds.
       andThen (emit (ExtendPreds Training preds)) (\<lambda>_.
       andThen (emit (ExtendLabels Training labels)) (\<lambda>_.
       andThen (call ''clip_grad_norm_'' (ClipGradNorm max_grad_norm)
                  (on_fw (clip_grad_norm env max_grad_norm))) (\<lambda>_.
       andThen (call ''loss.backward'' Backward (on_fw (loss_backward env))) (\<lambda>_.
       andThen (call ''optimizer.step'' OptimizerStep (on_fw (optimizer_step env))) (\<lambda>_.
       andThen (emit (LossItem (loss out))) (\<lambda>_.
       ret (fadd running_loss (loss out), train_preds @ preds, train_labels @ labels))))))))))))"

text \<open>Lines 108 to 117: one forward pass on one batch of the validation loader.\<close>

definition val_step ::
  "'f torch \<Rightarrow> bool \<Rightarrow> nat list \<times> nat list \<Rightarrow> batch \<times> nat list
     \<Rightarrow> ('f trainer, nat list \<times> nat list) prog" where
  "val_step env enable_bf16 vars bl =
    (case vars of (test_preds, test_labels) \<Rightarrow>
     case bl of (b, labels) \<Rightarrow>
       andThen (model_forward env enable_bf16 b None) (\<lambda>pred.
       andThen (pure_call ''argmax'' (argmax_last (logits pred))) (\<lambda>preds.
       andThen (emit (ExtendPreds Validation preds)) (\<lambda>_.
       andThen (emit (ExtendLabels Validation labels)) (\<lambda>_.
       ret (test_preds @ preds, test_labels @ labels))))))"

text \<open>Lines 138 to 145: the checkpoint-save step.\<close>

definition save_checkpoint :: "'f torch \<Rightarrow> string \<Rightarrow> int \<Rightarrow> ('f trainer, unit) prog" where
  "save_checkpoint env path epoch =
     andThen (call ''path.mkdir'' (Mkdir path) (on_fw (path_mkdir env path))) (\<lambda>_.
     andThen (call ''tokenizer.save_pretrained'' (SaveTokenizer path)
                (on_fw (tokenizer_save_pretrained env path))) (\<lambda>_.
     andThen (call ''model.save_pretrained'' (SaveModel path)
                (on_fw (model_save_pretrained env path))) (\<lambda>_.
     andThen (emit (LogInfo ''Saved model files to %s'' [AStr path])) (\<lambda>_.
     emit (LogInfo ''Saved model at epoch {epoch}'' [AInt epoch])))))"

text \<open>Lines 60 to 145: the body of the epoch loop; \<open>acc\<close> is read, never assigned.\<close>

definition epoch_body ::
  "'f torch \<Rightarrow> bool \<Rightarrow> flags \<Rightarrow> pyfloat \<Rightarrow> pyfloat \<Rightarrow> int \<Rightarrow> ('f trainer, unit) prog" where
  "epoch_body env enable_bf16 flgs max_grad_norm acc epoch =
     andThen (call ''train_dataloader'' (Call ''enumerate(train_dataloader)'')
                (on_fw (train_dataloader env))) (\<lambda>batches.
     andThen (for_each batches (train_step env enable_bf16 max_grad_norm epoch)
                (Fin 0, [], [])) (\<lambda>(running_loss, train_preds, train_labels).
     andThen (pure_call ''accuracy_score'' (accuracy_score train_preds train_labels)) (\<lambda>trainAcc.
     andThen (emit (LogInfo ''Epoch Train Accuracy %.4f'' [AFloat acc])) (\<lambda>_.
     andThen (call ''val_dataloader'' (Call ''enumerate(val_dataloader)'')
                (on_fw (val_dataloader env))) (\<lambda>vbatches.
     andThen (for_each vbatches (val_step env enable_bf16) ([], [])) (\<lambda>(test_preds, test_labels).
     andThen (pure_call ''accuracy_score'' (accuracy_score test_preds test_labels)) (\<lambda>testAcc.
     andThen (emit (LogInfo ''Test Accuracy %.4f'' [AFloat testAcc])) (\<lambda>_.
     andThen (emit (LogInfo ''Epoch %d, Loss %.4f'' [AInt epoch, AFloat running_loss])) (\<lambda>_.
     andThen (emit (AddScalar ''Accuracy/train'' trainAcc epoch)) (\<lambda>_.
     andThen (emit (AddScalar ''Accuracy/test'' testAcc epoch)) (\<lambda>_.
     if fgt testAcc acc \<and> fgt testAcc (Fin 0.8) \<and> flt testAcc (Fin 0.95)
     then (if truthy (save_model_dir flgs)
           then save_checkpoint env (the (save_model_dir flgs)) epoch
           else ret ())
     else ret ())))))))))))"

text \<open>
  Lines 54 to 147. \<open>acc\<close> is the only local variable that lives across epochs: the loop
  hands it from one epoch to the next as the body leaves it.
\<close>

definition epoch_loop ::
  "'f torch \<Rightarrow> bool \<Rightarrow> flags \<Rightarrow> int \<Rightarrow> pyfloat \<Rightarrow> pyfloat \<Rightarrow> ('f trainer, pyfloat) prog" where
  "epoch_loop env enable_bf16 flgs epochs max_grad_norm acc0 =
     for_each [1..epochs]
       (\<lambda>acc epoch. andThen (epoch_body env enable_bf16 flgs max_grad_norm acc epoch)
                      (\<lambda>_. ret acc))
       acc0"

definition train ::
  "'f torch \<Rightarrow> bool \<Rightarrow> flags \<Rightarrow> int \<Rightarrow> pyfloat \<Rightarrow> ('f trainer, unit) prog" where
  "train env enable_bf16 flgs epochs max_grad_norm =
     andThen (emit (WriterOpen ''tensorboard'')) (\<lambda>_.
     andThen model_train (\<lambda>_.
     andThen (epoch_loop env enable_bf16 flgs epochs max_grad_norm (Fin 0)) (\<lambda>_.
     emit WriterClose)))"


section \<open>Observations on a trace\<close>

text \<open>The entries the metrics writer received: tag and step, and the values under one tag.\<close>

fun entry_of :: "event \<Rightarrow> (string \<times> int) list" where
  "entry_of (AddScalar t v step) = [(t, step)]"
| "entry_of _ = []"

definition writer_entries :: "event list \<Rightarrow> (string \<times> int) list" where
  "writer_entries evs = concat (map entry_of evs)"

fun scalar_of :: "string \<Rightarrow> event \<Rightarrow> (pyfloat \<times> int) list" where
  "scalar_of tag (AddScalar t v step) = (if t = tag then [(v, step)] else [])"
| "scalar_of tag _ = []"

definition scalars :: "string \<Rightarrow> event list \<Rightarrow> (pyfloat \<times> int) list" where
  "scalars tag evs = concat (map (scalar_of tag) evs)"

text \<open>The records the logger received at level INFO: message and arguments.\<close>

fun info_of :: "event \<Rightarrow> (string \<times> arg list) list" where
  "info_of (LogInfo msg args) = [(msg, args)]"
| "info_of _ = []"

definition info_logs :: "event list \<Rightarrow> (string \<times> arg list) list" where
  "info_logs evs = concat (map info_of evs)"

text \<open>The calls of the checkpoint-save step, and the epochs it reported.\<close>

fun is_checkpoint_call :: "event \<Rightarrow> bool" where
  "is_checkpoint_call (Mkdir p) = True"
| "is_checkpoint_call (SaveTokenizer p) = True"
| "is_checkpoint_call (SaveModel p) = True"
| "is_checkpoint_call _ = False"

definition checkpoint_calls :: "event list \<Rightarrow> event list" where
  "checkpoint_calls evs = filter is_checkpoint_call evs"

definition saved_epochs :: "event list \<Rightarrow> int list" where
  "saved_epochs evs =
     concat (map (\<lambda>(msg, args). if msg = ''Saved model at epoch {epoch}''
                                 then (case args of [AInt e] \<Rightarrow> [e] | _ \<Rightarrow> []) else [])
                 (info_logs evs))"

text \<open>The predictions and labels accumulated in a phase.\<close>

fun preds_of :: "phase \<Rightarrow> event \<Rightarrow> nat list" where
  "preds_of ph (ExtendPreds ph' ps) = (if ph' = ph then ps else [])"
| "preds_of ph _ = []"

fun labels_of :: "phase \<Rightarrow> event \<Rightarrow> nat list" where
  "labels_of ph (ExtendLabels ph' ls) = (if ph' = ph then ls else [])"
| "labels_of ph _ = []"

definition accumulated_preds :: "phase \<Rightarrow> event list \<Rightarrow> nat list" where
  "accumulated_preds ph evs = concat (map (preds_of ph) evs)"

definition accumulated_labels :: "phase \<Rightarrow> event list \<Rightarrow> nat list" where
  "accumulated_labels ph evs = concat (map (labels_of ph) evs)"

text \<open>The calls of the training steps, by name, and the marks of the phases.\<close>

fun step_call_of :: "event \<Rightarrow> string list" where
  "step_call_of ZeroGrad = [''zero_grad'']"
| "step_call_of (Forward m a l) = (if l then [''forward''] else [])"
| "step_call_of (ExtendPreds ph ps) = (if ph = Training then [''extend train_preds''] else [])"
| "step_call_of (ClipGradNorm g) = [''clip_grad_norm_'']"
| "step_call_of Backward = [''backward'']"
| "step_call_of OptimizerStep = [''optimizer.step'']"
| "step_call_of (LossItem l) = [''loss.item'']"
| "step_call_of _ = []"

definition step_calls :: "event list \<Rightarrow> string list" where
  "step_calls evs = concat (map step_call_of evs)"

definition step_pattern :: "string list" where
  "step_pattern = [''zero_grad'', ''forward'', ''extend train_preds'', ''clip_grad_norm_'',
                   ''backward'', ''optimizer.step'', ''loss.item'']"

datatype mark = PhaseStart phase | EpochEnd int

fun mark_of :: "event \<Rightarrow> mark list" where
  "mark_of (Call n) = (if n = ''enumerate(train_dataloader)'' then [PhaseStart Training]
                       else if n = ''enumerate(val_dataloader)'' then [PhaseStart Validation]
                       else [])"
| "mark_of (LogInfo msg args) =
     (if msg = ''Epoch %d, Loss %.4f''
      then (case args of AInt e # _ \<Rightarrow> [EpochEnd e] | _ \<Rightarrow> []) else [])"
| "mark_of _ = []"

definition phase_marks :: "event list \<Rightarrow> mark list" where
  "phase_marks evs = concat (map mark_of evs)"

text \<open>The events of one training step, one validation step, one checkpoint, one epoch.\<close>

definition step_events ::
  "bool \<Rightarrow> bool \<Rightarrow> pyfloat \<Rightarrow> int \<Rightarrow> pyfloat \<times> nat list \<times> nat list \<Rightarrow> event list" where
  "step_events m bf mg epoch x = (case x of (l, ps, labels) \<Rightarrow>
     [ZeroGrad, Forward m bf True, AddScalar ''Loss/train'' l epoch, ExtendPreds Training ps,
      ExtendLabels Training labels, ClipGradNorm mg, Backward, OptimizerStep, LossItem l])"

definition val_events :: "bool \<Rightarrow> bool \<Rightarrow> nat list \<times> nat list \<Rightarrow> event list" where
  "val_events m bf y = (case y of (ps, labels) \<Rightarrow>
     [Forward m bf False, ExtendPreds Validation ps, ExtendLabels Validation labels])"

definition checkpoint_events :: "string \<Rightarrow> int \<Rightarrow> event list" where
  "checkpoint_events path epoch =
     [Mkdir path, SaveTokenizer path, SaveModel path,
      LogInfo ''Saved model files to %s'' [AStr path],
      LogInfo ''Saved model at epoch {epoch}'' [AInt epoch]]"

definition epoch_events ::
  "bool \<Rightarrow> bool \<Rightarrow> flags \<Rightarrow> pyfloat \<Rightarrow> pyfloat \<Rightarrow> int
     \<Rightarrow> (pyfloat \<times> nat list \<times> nat list) list \<Rightarrow> (nat list \<times> nat list) list
     \<Rightarrow> pyfloat \<Rightarrow> pyfloat \<Rightarrow> event list" where
  "epoch_events m bf flgs mg acc epoch xs ys ta va =
     Call ''enumerate(train_dataloader)'' # concat (map (step_events m bf mg epoch) xs)
     @ [LogInfo ''Epoch Train Accuracy %.4f'' [AFloat acc], Call ''enumerate(val_dataloader)'']
     @ concat (map (val_events m bf) ys)
     @ [LogInfo ''Test Accuracy %.4f'' [AFloat va],
        LogInfo ''Epoch %d, Loss %.4f''
          [AInt epoch, AFloat (fold (\<lambda>x a. fadd a (fst x)) xs (Fin 0))],
        AddScalar ''Accuracy/train'' ta epoch, AddScalar ''Accuracy/test'' va epoch]
     @ (if fgt va acc \<and> fgt va (Fin 0.8) \<and> flt va (Fin 0.95) \<and> truthy (save_model_dir flgs)
        then checkpoint_events (the (save_model_dir flgs)) epoch else [])"

text \<open>The values \<^verbatim>\<open>loss.item()\<close> returned, in order.\<close>

fun loss_item_of :: "event \<Rightarrow> pyfloat list" where
  "loss_item_of (LossItem l) = [l]"
| "loss_item_of _ = []"

definition loss_items :: "event list \<Rightarrow> pyfloat list" where
  "loss_items evs = concat (map loss_item_of evs)"

text \<open>
  A program keeps the discipline of exceptions when a run that raises \<open>e\<close> ends its trace
  with the one mark \<open>Raised n e\<close>, for a call \<open>n\<close> that \<open>ok\<close> admits, and a run that returns
  has no such mark.
\<close>

definition no_raise :: "event list \<Rightarrow> bool" where
  "no_raise evs = (\<forall>n e. Raised n e \<notin> set evs)"

definition disciplined :: "(string \<Rightarrow> bool) \<Rightarrow> ('s, 'a) prog \<Rightarrow> bool" where
  "disciplined ok m = (\<forall>s. case m s of
       (Inl e, evs, s') \<Rightarrow> (\<exists>n pre. evs = pre @ [Raised n e] \<and> no_raise pre \<and> ok n)
     | (Inr a, evs, s') \<Rightarrow> no_raise evs)"

text \<open>
  The policy of the driver on exceptions, as a property of the result \<open>r\<close> and the trace
  of a run: a \<open>FileNotFoundError\<close> of the preprocessing is followed by the two error
  records and a normal return; any other exception raised is the result of the run and the
  end of its trace; and the run raises nothing that no call raised.
\<close>

definition exn_policy :: "exn + unit \<Rightarrow> event list \<Rightarrow> bool" where
  "exn_policy r evs =
     ((\<forall>n e. Raised n e \<in> set evs \<longrightarrow>
        (if n = ''read_and_preprocess_data'' \<and> e = FileNotFoundError
         then r = Inr ()
            \<and> (\<exists>pre. evs = pre @ [Raised n e,
                   LogError ''Please follow instructions to download data.'' [] False,
                   LogError ''%s'' [AExn FileNotFoundError] True])
         else r = Inl e \<and> last evs = Raised n e))
   \<and> (\<forall>e. r = Inl e \<longrightarrow> (\<exists>n. Raised n e \<in> set evs)))"


section \<open>A small run of the training loop\<close>

text \<open>
  A model that reads the class off the first token, and gets the row \<open>[2]\<close> right only
  after more than two optimizer steps; the state of the frameworks is the number of steps.
  The training loader yields two batches of one sample, the validation loader one batch of
  six, so the validation accuracy is 5/6 after the first epoch and 1 after the second.
\<close>

definition demo_predict :: "nat \<Rightarrow> row \<Rightarrow> real list" where
  "demo_predict steps r =
     (if r = [2] then (if steps \<le> 2 then [1, 0] else [0, 1])
      else if r = [1] then [0, 1] else [1, 0])"

definition demo_batch :: "row list \<Rightarrow> batch" where
  "demo_batch rows = \<lparr>input_ids = rows, attention_mask = map (map (\<lambda>_. 1)) rows,
                      token_type_ids = map (map (\<lambda>_. 0)) rows\<rparr>"

definition demo_torch :: "nat torch" where
  "demo_torch = \<lparr>
     model_call = (\<lambda>m a b labels f.
        (Inr \<lparr>loss = Fin (1 / 2), logits = map (demo_predict f) (input_ids b)\<rparr>, f)),
     zero_grad = (\<lambda>f. (Inr (), f)),
     clip_grad_norm = (\<lambda>g f. (Inr (), f)),
     loss_backward = (\<lambda>f. (Inr (), f)),
     optimizer_step = (\<lambda>f. (Inr (), Suc f)),
     train_dataloader = (\<lambda>f. (Inr [(demo_batch [[1]], [1]), (demo_batch [[0]], [0])], f)),
     val_dataloader = (\<lambda>f.
        (Inr [(demo_batch [[1], [1], [0], [0], [1], [2]], [1, 1, 0, 0, 1, 1])], f)),
     path_mkdir = (\<lambda>p f. (Inr (), f)),
     tokenizer_save_pretrained = (\<lambda>p f. (Inr (), f)),
     model_save_pretrained = (\<lambda>p f. (Inr (), f))\<rparr>"

definition demo_flags :: flags where
  "demo_flags = \<lparr>save_model_dir = Some ''saved''\<rparr>"

definition demo_trainer :: "nat trainer" where
  "demo_trainer = \<lparr>training = False, fw = 0\<rparr>"

definition demo_epoch1 :: "event list" where
  "demo_epoch1 =
     [Call ''enumerate(train_dataloader)'',
      ZeroGrad, Forward True False True, AddScalar ''Loss/train'' (Fin (1 / 2)) 1,
      ExtendPreds Training [1], ExtendLabels Training [1], ClipGradNorm (Fin 10), Backward,
      OptimizerStep, LossItem (Fin (1 / 2)),
      ZeroGrad, Forward True False True, AddScalar ''Loss/train'' (Fin (1 / 2)) 1,
      ExtendPreds Training [0], ExtendLabels Training [0], ClipGradNorm (Fin 10), Backward,
      OptimizerStep, LossItem (Fin (1 / 2)),
      LogInfo ''Epoch Train Accuracy %.4f'' [AFloat (Fin 0)],
      Call ''enumerate(val_dataloader)'',
      Forward True False False, ExtendPreds Validation [1, 1, 0, 0, 1, 0],
      ExtendLabels Validation [1, 1, 0, 0, 1, 1],
      LogInfo ''Test Accuracy %.4f'' [AFloat (Fin (5 / 6))],
      LogInfo ''Epoch %d, Loss %.4f'' [AInt 1, AFloat (Fin 1)],
      AddScalar ''Accuracy/train'' (Fin 1) 1, AddScalar ''Accuracy/test'' (Fin (5 / 6)) 1,
      Mkdir ''saved'', SaveTokenizer ''saved'', SaveModel ''saved'',
      LogInfo ''Saved model files to %s'' [AStr ''saved''],
      LogInfo ''Saved model at epoch {epoch}'' [AInt 1]]"

definition demo_epoch2 :: "event list" where
  "demo_epoch2 =
     [Call ''enumerate(train_dataloader)'',
      ZeroGrad, Forward True False True, AddScalar ''Loss/train'' (Fin (1 / 2)) 2,
      ExtendPreds Training [1], ExtendLabels Training [1], ClipGradNorm (Fin 10), Backward,
      OptimizerStep, LossItem (Fin (1 / 2)),
      ZeroGrad, Forward True False True, AddScalar ''Loss/train'' (Fin (1 / 2)) 2,
      ExtendPreds Training [0], ExtendLabels Training [0], ClipGradNorm (Fin 10), Backward,
      OptimizerStep, LossItem (Fin (1 / 2)),
      LogInfo ''Epoch Train Accuracy %.4f'' [AFloat (Fin 0)],
      Call ''enumerate(val_dataloader)'',
      Forward True False False, ExtendPreds Validation [1, 1, 0, 0, 1, 1],
      ExtendLabels Validation [1, 1, 0, 0, 1, 1],
      LogInfo ''Test Accuracy %.4f'' [AFloat (Fin 1)],
      LogInfo ''Epoch %d, Loss %.4f'' [AInt 2, AFloat (Fin 1)],
      AddScalar ''Accuracy/train'' (Fin 1) 2, AddScalar ''Accuracy/test'' (Fin 1) 2]"


section \<open>Files and directories\<close>

text \<open>
  A directory is the list of its regular files, each under its path relative to the
  directory (a list of names, so that files below sub-directories are present); the file
  system maps the path of a directory to its content. Paths are taken as canonical; links,
  empty directories and a file and a directory of one name are outside the model.
\<close>

type_synonym directory = "(string list \<times> string) list"
type_synonym filesystem = "(string \<times> directory) list"

text \<open>\<^verbatim>\<open>os.path.exists(d)\<close> and \<^verbatim>\<open>os.path.exists(os.path.join(d, name))\<close>.\<close>

definition path_exists :: "filesystem \<Rightarrow> string \<Rightarrow> bool" where
  "path_exists fsys d = (map_of fsys d \<noteq> None)"

definition entry_exists :: "filesystem \<Rightarrow> string \<Rightarrow> string \<Rightarrow> bool" where
  "entry_exists fsys d name =
     (case map_of fsys d of
        None \<Rightarrow> False
      | Some dir \<Rightarrow> list_ex (\<lambda>(p, c). p \<noteq> [] \<and> hd p = name) dir)"

text \<open>
  \<^verbatim>\<open>fnmatch\<close> on a name and a pattern of literal characters, \<open>*\<close> and \<open>?\<close> (the driver's
  only pattern, \<^verbatim>\<open>*.bin*\<close>, has no bracket expression).
\<close>

fun fnmatch :: "string \<Rightarrow> string \<Rightarrow> bool" where
  "fnmatch [] [] = True"
| "fnmatch (c # cs) [] = False"
| "fnmatch [] (p # ps) = (p = CHR ''*'' \<and> fnmatch [] ps)"
| "fnmatch (c # cs) (p # ps) =
     (if p = CHR ''*'' then fnmatch (c # cs) ps \<or> fnmatch cs (p # ps)
      else (p = CHR ''?'' \<or> p = c) \<and> fnmatch cs ps)"

text \<open>\<^verbatim>\<open>shutil.ignore_patterns(pat)\<close>: the names of a directory that the copy leaves out.\<close>

definition ignore_patterns :: "string \<Rightarrow> string \<Rightarrow> bool" where
  "ignore_patterns pat name = fnmatch name pat"

text \<open>
  \<^verbatim>\<open>shutil.copytree(src, dst, ignore=ignore, dirs_exist_ok=True)\<close>. The copy descends
  from \<open>src\<close> and leaves out every name that \<open>ignore\<close> selects, a directory with all below
  it; so a file is copied when no name on its path is selected. Files already in \<open>dst\<close>
  stay unless a copied file has their path. A missing \<open>src\<close> raises, and so does copying
  a file onto itself.
\<close>

definition copytree ::
  "string \<Rightarrow> string \<Rightarrow> (string \<Rightarrow> bool) \<Rightarrow> filesystem \<Rightarrow> (exn + unit) \<times> filesystem" where
  "copytree src dst ignore fsys =
     (case map_of fsys src of
        None \<Rightarrow> (Inl FileNotFoundError, fsys)
      | Some sd \<Rightarrow>
          (let kept = filter (\<lambda>(p, c). \<not> list_ex ignore p) sd in
           if src = dst then (if kept = [] then (Inr (), fsys) else (Inl ShutilError, fsys))
           else (Inr (),
                 AList.update dst
                   (AList.merge (case map_of fsys dst of None \<Rightarrow> [] | Some dd \<Rightarrow> dd) kept)
                   fsys)))"

section \<open>The data loader\<close>

text \<open>
  \<^verbatim>\<open>torch.utils.data.DataLoader(dataset, batch_size=n, shuffle=True)\<close>. The constructor
  rejects a batch size that is not positive, and its random sampler rejects an empty
  dataset, both with \<open>ValueError\<close>.
\<close>

record DataLoader =
  dataset :: "sample list"
  loader_batch_size :: nat

definition new_DataLoader :: "sample list \<Rightarrow> int \<Rightarrow> exn + DataLoader" where
  "new_DataLoader ds n =
     (if n \<le> 0 then Inl ValueError
      else if ds = [] then Inl ValueError
      else Inr \<lparr>dataset = ds, loader_batch_size = nat n\<rparr>)"

function chunks :: "nat \<Rightarrow> 'a list \<Rightarrow> 'a list list" where
  "chunks n xs = (if n = 0 \<or> xs = [] then [] else take n xs # chunks n (drop n xs))"
  by pat_completeness auto
termination
  by (relation "measure (\<lambda>(n, xs). length xs)") auto

text \<open>The default collation: the rows of the samples stacked, and their labels.\<close>

definition collate :: "sample list \<Rightarrow> batch \<times> nat list" where
  "collate xs =
     (\<lparr>input_ids = map (\<lambda>x. input_ids (fst x)) xs,
       attention_mask = map (\<lambda>x. attention_mask (fst x)) xs,
       token_type_ids = map (\<lambda>x. token_type_ids (fst x)) xs\<rparr>,
      map snd xs)"

text \<open>One pass over the loader, in the order \<open>perm\<close> that the sampler drew.\<close>

definition loader_batches :: "DataLoader \<Rightarrow> nat list \<Rightarrow> exn + (batch \<times> nat list) list" where
  "loader_batches loader perm =
     (if list_all (\<lambda>i. i < length (dataset loader)) perm
      then Inr (map collate (chunks (loader_batch_size loader)
                               (map (\<lambda>i. dataset loader ! i) perm)))
      else Inl IndexError)"

section \<open>The quantization driver (\<^verbatim>\<open>run_quantize_inc.py\<close>)\<close>

text \<open>
  The state of a run is the file system and the state \<open>'x\<close> of the libraries. The
  tokenizer (\<open>'t\<close>), the models (\<open>'m\<close>), the configuration (\<open>'c\<close>) and the quantized model
  (\<open>'q\<close>) are objects of the libraries; every call on them may raise and may change the
  state. \<^verbatim>\<open>read_and_preprocess_data\<close> is the preprocessing function of
  \<^verbatim>\<open>utils/process_data.py\<close>, taken as given.
\<close>

record 'x world =
  fs :: filesystem
  ext :: 'x

record ('x, 't, 'm, 'c, 'q) inc =
  tokenizer_from_pretrained :: "string \<Rightarrow> 'x world \<Rightarrow> (exn + 't) \<times> 'x world"
  read_and_preprocess_data ::
    "string \<Rightarrow> 't \<Rightarrow> int \<Rightarrow> 'x world \<Rightarrow> (exn + sample list) \<times> 'x world"
  model_from_pretrained :: "string \<Rightarrow> 'x world \<Rightarrow> (exn + 'm) \<times> 'x world"
  model_apply :: "'m \<Rightarrow> batch \<Rightarrow> 'x world \<Rightarrow> (exn + model_output) \<times> 'x world"
  randperm :: "nat \<Rightarrow> 'x world \<Rightarrow> (exn + nat list) \<times> 'x world"
  post_training_quant_config :: "'x world \<Rightarrow> (exn + 'c) \<times> 'x world"
  set_workspace :: "string \<Rightarrow> 'x world \<Rightarrow> (exn + unit) \<times> 'x world"
  quantization_fit ::
    "'m \<Rightarrow> 'c \<Rightarrow> DataLoader \<Rightarrow> ('m \<Rightarrow> 'x world \<Rightarrow> (exn + pyfloat) \<times> 'x world)
       \<Rightarrow> 'x world \<Rightarrow> (exn + 'q) \<times> 'x world"
  quantized_save :: "'q \<Rightarrow> string \<Rightarrow> 'x world \<Rightarrow> (exn + unit) \<times> 'x world"

record quantize_flags =
  input_file :: string
  batch_size :: int
  saved_model_dir :: string
  output_dir :: string
  seq_length :: int

definition on_fs ::
  "(filesystem \<Rightarrow> (exn + 'a) \<times> filesystem) \<Rightarrow> 'x world \<Rightarrow> (exn + 'a) \<times> 'x world" where
  "on_fs f = (\<lambda>w. case f (fs w) of (r, fs1) \<Rightarrow> (r, w\<lparr>fs := fs1\<rparr>))"

text \<open>
  \<^verbatim>\<open>try: m  except E: handler; return\<close>, followed by \<open>k\<close>: an exception of \<open>m\<close> that
  \<open>catches\<close> selects runs the handler, whose end is the end of the function.
\<close>

definition try_except ::
  "('s, 'a) prog \<Rightarrow> (exn \<Rightarrow> bool) \<Rightarrow> (exn \<Rightarrow> ('s, 'b) prog) \<Rightarrow> ('a \<Rightarrow> ('s, 'b) prog)
     \<Rightarrow> ('s, 'b) prog" where
  "try_except m catches handler k = (\<lambda>s. case m s of
       (Inl e, evs, s1) \<Rightarrow>
         (if catches e then (case handler e s1 of (r, evs2, s2) \<Rightarrow> (r, evs @ evs2, s2))
          else (Inl e, evs, s1))
     | (Inr a, evs, s1) \<Rightarrow> (case k a s1 of (r, evs2, s2) \<Rightarrow> (r, evs @ evs2, s2)))"

text \<open>Lines 63 to 72: the loop of \<^verbatim>\<open>evaluate_accuracy\<close> over the batches of the loader.\<close>

definition eval_step ::
  "('x, 't, 'm, 'c, 'q) inc \<Rightarrow> 'm \<Rightarrow> nat list \<times> nat list \<Rightarrow> batch \<times> nat list
     \<Rightarrow> ('x world, nat list \<times> nat list) prog" where
  "eval_step env model_q vars bl =
    (case vars of (test_preds, test_labels) \<Rightarrow>
     case bl of (b, labels) \<Rightarrow>
       andThen (call ''model_q'' (Call ''model_q'') (model_apply env model_q b)) (\<lambda>pred.
       andThen (pure_call ''argmax'' (argmax_last (logits pred))) (\<lambda>preds.
       andThen (emit (ExtendPreds Validation preds)) (\<lambda>_.
       andThen (emit (ExtendLabels Validation labels)) (\<lambda>_.
       ret (test_preds @ preds, test_labels @ labels))))))"

text \<open>Lines 60 to 74.\<close>

definition evaluate_accuracy ::
  "('x, 't, 'm, 'c, 'q) inc \<Rightarrow> DataLoader \<Rightarrow> 'm \<Rightarrow> ('x world, pyfloat) prog" where
  "evaluate_accuracy env test_loader model_q =
     andThen (call ''randperm'' (Call ''enumerate(test_loader)'')
                (randperm env (length (dataset test_loader)))) (\<lambda>perm.
     andThen (pure_call ''dataset[index]'' (loader_batches test_loader perm)) (\<lambda>batches.
     andThen (for_each batches (eval_step env model_q) ([], [])) (\<lambda>(test_preds, test_labels).
     pure_call ''accuracy_score'' (accuracy_score test_preds test_labels))))"

text \<open>
  Lines 51 to 85. The fit receives \<^verbatim>\<open>evaluate_accuracy\<close> as a function of the model; what
  it does with it is the library's business.
\<close>

definition quantize_model ::
  "('x, 't, 'm, 'c, 'q) inc \<Rightarrow> 'm \<Rightarrow> DataLoader \<Rightarrow> quantize_flags \<Rightarrow> ('x world, 'q) prog" where
  "quantize_model env model test_loader flgs =
     andThen (call ''PostTrainingQuantConfig'' (Call ''PostTrainingQuantConfig'')
                (post_training_quant_config env)) (\<lambda>conf.
     andThen (call ''set_workspace'' (Call ''set_workspace'')
                (set_workspace env (output_dir flgs))) (\<lambda>_.
     call ''quantization.fit'' (Call ''quantization.fit'')
       (quantization_fit env model conf test_loader
          (\<lambda>model_q w. case evaluate_accuracy env test_loader model_q w of
                          (r, evs, w1) \<Rightarrow> (r, w1)))))"

text \<open>Lines 124 to 130: the copy of the other files of the saved model.\<close>

definition copy_auxiliary_files :: "quantize_flags \<Rightarrow> ('x world, unit) prog" where
  "copy_auxiliary_files flgs = (\<lambda>w.
     if entry_exists (fs w) (output_dir flgs) ''best_model.pt''
     then call ''shutil.copytree'' (Call ''shutil.copytree'')
            (on_fs (copytree (saved_model_dir flgs) (output_dir flgs)
                      (ignore_patterns ''*.bin*''))) w
     else ret () w)"

text \<open>Lines 106 to 116: the body of the \<^verbatim>\<open>try\<close> and the handler.\<close>

definition load_dataset ::
  "('x, 't, 'm, 'c, 'q) inc \<Rightarrow> quantize_flags \<Rightarrow> 't \<Rightarrow> ('x world, DataLoader) prog" where
  "load_dataset env flgs tokenizer =
     andThen (call ''read_and_preprocess_data'' (Call ''read_and_preprocess_data'')
                (read_and_preprocess_data env (input_file flgs) tokenizer (seq_length flgs)))
       (\<lambda>test_dataset.
     pure_call ''DataLoader'' (new_DataLoader test_dataset (batch_size flgs)))"

definition data_missing :: "exn \<Rightarrow> ('s, unit) prog" where
  "data_missing exc =
     andThen (emit (LogError ''Please follow instructions to download data.'' [] False)) (\<lambda>_.
     emit (LogError ''%s'' [AExn exc] True))"

text \<open>Lines 118 to 130: load the model, quantize it, save it, copy the other files.\<close>

definition quantize_and_save ::
  "('x, 't, 'm, 'c, 'q) inc \<Rightarrow> quantize_flags \<Rightarrow> DataLoader \<Rightarrow> ('x world, unit) prog" where
  "quantize_and_save env flgs test_loader =
     andThen (call ''AutoModelForSequenceClassification.from_pretrained''
                (Call ''AutoModelForSequenceClassification.from_pretrained'')
                (model_from_pretrained env (saved_model_dir flgs))) (\<lambda>model.
     andThen (quantize_model env model test_loader flgs) (\<lambda>quantized_model.
     andThen (call ''quantized_model.save'' (Call ''quantized_model.save'')
                (quantized_save env quantized_model (output_dir flgs))) (\<lambda>_.
     copy_auxiliary_files flgs)))"

text \<open>Lines 88 to 130.\<close>

definition main :: "('x, 't, 'm, 'c, 'q) inc \<Rightarrow> quantize_flags \<Rightarrow> ('x world, unit) prog" where
  "main env flgs =
     andThen (emit (Call ''logging.basicConfig'')) (\<lambda>_. (\<lambda>w.
       if \<not> path_exists (fs w) (saved_model_dir flgs)
       then emit (LogError ''Saved model %s not found!'' [AStr (saved_model_dir flgs)] False) w
       else
        (andThen (call ''AutoTokenizer.from_pretrained'' (Call ''AutoTokenizer.from_pretrained'')
                   (tokenizer_from_pretrained env (saved_model_dir flgs))) (\<lambda>tokenizer.
         try_except (load_dataset env flgs tokenizer) (\<lambda>e. e = FileNotFoundError) data_missing
           (quantize_and_save env flgs))) w))"

text \<open>The files of a directory, by relative path; none when the directory is missing.\<close>

definition dir_files :: "filesystem \<Rightarrow> string \<Rightarrow> string list \<Rightarrow> string option" where
  "dir_files fsys d = (case map_of fsys d of None \<Rightarrow> Map.empty | Some dir \<Rightarrow> map_of dir)"

section \<open>A small run of the quantization driver\<close>

text \<open>
  A saved model of three files and a dataset of three samples, the last of which the model
  gets wrong. The sampler reverses the order; the fit evaluates the candidate once and
  accepts it; saving writes \<^verbatim>\<open>best_model.pt\<close> into the output directory.
\<close>

definition demo_encoding :: "row \<Rightarrow> row encoding" where
  "demo_encoding r = \<lparr>input_ids = r, attention_mask = map (\<lambda>_. 1) r,
                       token_type_ids = map (\<lambda>_. 0) r\<rparr>"

definition demo_samples :: "sample list" where
  "demo_samples = [(demo_encoding [1], 1), (demo_encoding [0], 0), (demo_encoding [2], 1)]"

definition demo_inc :: "(unit, unit, nat, unit, nat) inc" where
  "demo_inc = \<lparr>
     tokenizer_from_pretrained = (\<lambda>d w. (Inr (), w)),
     read_and_preprocess_data = (\<lambda>f tok n w.
        if f = ''data.csv'' then (Inr demo_samples, w) else (Inl FileNotFoundError, w)),
     model_from_pretrained = (\<lambda>d w. (Inr 0, w)),
     model_apply = (\<lambda>m b w.
        (Inr \<lparr>loss = NaN, logits = map (demo_predict 0) (input_ids b)\<rparr>, w)),
     randperm = (\<lambda>n w. (Inr (rev [0..<n]), w)),
     post_training_quant_config = (\<lambda>w. (Inr (), w)),
     set_workspace = (\<lambda>d w. (Inr (), w)),
     quantization_fit = (\<lambda>m c loader eval_func w.
        case eval_func 1 w of (Inl e, w1) \<Rightarrow> (Inl e, w1) | (Inr a, w1) \<Rightarrow> (Inr 1, w1)),
     quantized_save = (\<lambda>q d w.
        (Inr (), w\<lparr>fs := AList.update d
                       (AList.update [''best_model.pt''] ''int8 weights''
                          (case map_of (fs w) d of None \<Rightarrow> [] | Some dir \<Rightarrow> dir))
                       (fs w)\<rparr>))\<rparr>"

definition demo_qflags :: quantize_flags where
  "demo_qflags = \<lparr>input_file = ''data.csv'', batch_size = 2, saved_model_dir = ''model'',
                   output_dir = ''out'', seq_length = 512\<rparr>"

definition demo_model_dir :: directory where
  "demo_model_dir = [([''config.json''], ''{}''), ([''vocab.txt''], ''[PAD]''),
                     ([''pytorch_model.bin''], ''float weights'')]"

definition demo_world :: "unit world" where
  "demo_world = \<lparr>fs = [(''model'', demo_model_dir)], ext = ()\<rparr>"

text \<open>The same, with an output directory that already holds a copy of the float weights.\<close>

definition demo_world_prefilled :: "unit world" where
  "demo_world_prefilled =
     \<lparr>fs = [(''model'', demo_model_dir),
            (''out'', [([''pytorch_model.bin''], ''float weights'')])], ext = ()\<rparr>"


section \<open>Running a program: what a normal return tells\<close>

lemma andThen_InrE:
  assumes "andThen m k s = (Inr b, evs, s')"
  obtains a e1 s1 e2 where "m s = (Inr a, e1, s1)" and "k a s1 = (Inr b, e2, s')"
    and "evs = e1 @ e2"
  using assms by (auto simp: andThen_def split: prod.splits sum.splits)

lemma ret_InrE:
  assumes "ret a s = (Inr b, evs, s')"
  obtains "b = a" and "evs = []" and "s' = s"
  using assms by (auto simp: ret_def)

lemma emit_InrE:
  assumes "emit ev s = (Inr b, evs, s')"
  obtains "evs = [ev]" and "s' = s"
  using assms by (auto simp: emit_def)

lemma call_InrE:
  assumes "call name ev f s = (Inr a, evs, s')"
  obtains "f s = (Inr a, s')" and "evs = [ev]"
  using assms by (auto simp: call_def split: prod.splits sum.splits)

lemma pure_call_InrE:
  assumes "pure_call name r s = (Inr a, evs, s')"
  obtains "r = Inr a" and "evs = []" and "s' = s"
  using assms by (auto simp: pure_call_def split: sum.splits)

text \<open>
  A loop whose body, when it returns, leaves events with the projection \<open>g x\<close> leaves the
  projections of its elements in order; \<open>I\<close> is an invariant of variables and state.
\<close>

lemma for_each_proj:
  assumes h0: "h [] = []" and happ: "\<And>a b. h (a @ b) = h a @ h b"
    and body: "\<And>v x s r evs s'. I v s \<Longrightarrow> x \<in> set xs \<Longrightarrow> body v x s = (Inr r, evs, s')
                 \<Longrightarrow> h evs = g x \<and> I r s'"
    and run: "for_each xs body v s = (Inr r, evs, s')" and inv: "I v s"
  shows "h evs = concat (map g xs) \<and> I r s'"
  using body run inv
proof (induction xs arbitrary: v s evs)
  case Nil
  then show ?case by (auto simp: h0 elim!: ret_InrE)
next
  case (Cons x xs)
  from Cons.prems(2) obtain v1 e1 s1 e2 where
    b: "body v x s = (Inr v1, e1, s1)" and rest: "for_each xs body v1 s1 = (Inr r, e2, s')"
    and evs: "evs = e1 @ e2"
    by (auto elim!: andThen_InrE)
  from Cons.prems(1)[OF Cons.prems(3) _ b] have hb: "h e1 = g x" and i1: "I v1 s1" by auto
  have "h e2 = concat (map g xs) \<and> I r s'"
  proof (rule Cons.IH[OF _ rest i1])
    fix v0 x0 s0 r0 evs0 s0'
    assume "I v0 s0" "x0 \<in> set xs" "body v0 x0 s0 = (Inr r0, evs0, s0')"
    then show "h evs0 = g x0 \<and> I r0 s0'"
      using Cons.prems(1)[of v0 s0 x0 r0 evs0 s0'] by simp
  qed
  with hb evs show ?case by (simp add: happ)
qed

text \<open>The same for a property of traces that holds of \<open>[]\<close> and is kept by \<open>@\<close>.\<close>

lemma for_each_closed:
  assumes P0: "P []" and Papp: "\<And>a b. P a \<Longrightarrow> P b \<Longrightarrow> P (a @ b)"
    and body: "\<And>v x s r evs s'. I v s \<Longrightarrow> x \<in> set xs \<Longrightarrow> body v x s = (Inr r, evs, s')
                 \<Longrightarrow> P evs \<and> I r s'"
    and run: "for_each xs body v s = (Inr r, evs, s')" and inv: "I v s"
  shows "P evs \<and> I r s'"
  using body run inv
proof (induction xs arbitrary: v s evs)
  case Nil
  then show ?case by (auto simp: P0 elim!: ret_InrE)
next
  case (Cons x xs)
  from Cons.prems(2) obtain v1 e1 s1 e2 where
    b: "body v x s = (Inr v1, e1, s1)" and rest: "for_each xs body v1 s1 = (Inr r, e2, s')"
    and evs: "evs = e1 @ e2"
    by (auto elim!: andThen_InrE)
  from Cons.prems(1)[OF Cons.prems(3) _ b] have hb: "P e1" and i1: "I v1 s1" by auto
  have "P e2 \<and> I r s'"
  proof (rule Cons.IH[OF _ rest i1])
    fix v0 x0 s0 r0 evs0 s0'
    assume "I v0 s0" "x0 \<in> set xs" "body v0 x0 s0 = (Inr r0, evs0, s0')"
    then show "P evs0 \<and> I r0 s0'"
      using Cons.prems(1)[of v0 s0 x0 r0 evs0 s0'] by simp
  qed
  with hb evs show ?case by (simp add: Papp)
qed

section \<open>The trace of the training loop\<close>

lemma on_fw_training: "on_fw f s = (r, s') \<Longrightarrow> training s' = training s"
  by (auto simp: on_fw_def split: prod.splits)

lemma model_forward_InrE:
  assumes "model_forward env bf b l s = (Inr out, evs, s')"
  obtains "evs = [Forward (training s) bf (l \<noteq> None)]" and "training s' = training s"
    and "on_fw (model_call env (training s) bf b l) s = (Inr out, s')"
  using assms by (auto simp: model_forward_def elim!: call_InrE dest: on_fw_training)

lemma train_step_events:
  assumes "train_step env bf mg epoch (rl, tps, tls) (b, labels) s = (Inr r, evs, s')"
  shows "\<exists>l ps. evs = step_events (training s) bf mg epoch (l, ps, labels)
               \<and> r = (fadd rl l, tps @ ps, tls @ labels) \<and> training s' = training s"
  using assms unfolding train_step_def step_events_def
  by (auto elim!: andThen_InrE emit_InrE call_InrE ret_InrE pure_call_InrE model_forward_InrE
           dest!: on_fw_training)

lemma val_step_events:
  assumes "val_step env bf (tps, tls) (b, labels) s = (Inr r, evs, s')"
  shows "\<exists>ps. evs = val_events (training s) bf (ps, labels)
               \<and> r = (tps @ ps, tls @ labels) \<and> training s' = training s"
  using assms unfolding val_step_def val_events_def
  by (auto elim!: andThen_InrE emit_InrE call_InrE ret_InrE pure_call_InrE model_forward_InrE)

lemma train_loop_shape:
  assumes "for_each bs (train_step env bf mg epoch) (rl, tps, tls) s = (Inr r, evs, s')"
  shows "\<exists>xs. length xs = length bs
           \<and> evs = concat (map (step_events (training s) bf mg epoch) xs)
           \<and> r = (fold (\<lambda>x a. fadd a (fst x)) xs rl, tps @ concat (map (fst \<circ> snd) xs),
                  tls @ concat (map (snd \<circ> snd) xs))
           \<and> training s' = training s"
  using assms
proof (induction bs arbitrary: rl tps tls s evs)
  case Nil
  then show ?case by (auto elim!: ret_InrE)
next
  case (Cons bl bs)
  obtain b labels where bl: "bl = (b, labels)" by (cases bl)
  from Cons.prems obtain v1 e1 s1 e2 where
    st: "train_step env bf mg epoch (rl, tps, tls) (b, labels) s = (Inr v1, e1, s1)"
    and rest: "for_each bs (train_step env bf mg epoch) v1 s1 = (Inr r, e2, s')"
    and evs: "evs = e1 @ e2"
    by (auto simp: bl elim!: andThen_InrE)
  from train_step_events[OF st] obtain l ps where
    e1: "e1 = step_events (training s) bf mg epoch (l, ps, labels)"
    and v1: "v1 = (fadd rl l, tps @ ps, tls @ labels)" and t1: "training s1 = training s"
    by blast
  from Cons.IH[OF rest[unfolded v1]] obtain xs where
    xs: "length xs = length bs" "e2 = concat (map (step_events (training s1) bf mg epoch) xs)"
      "r = (fold (\<lambda>x a. fadd a (fst x)) xs (fadd rl l), (tps @ ps) @ concat (map (fst \<circ> snd) xs),
            (tls @ labels) @ concat (map (snd \<circ> snd) xs))"
      "training s' = training s1"
    by blast
  show ?case
    by (rule exI[of _ "(l, ps, labels) # xs"]) (simp add: xs evs e1 t1 comp_def)
qed

lemma val_loop_shape:
  assumes "for_each bs (val_step env bf) (tps, tls) s = (Inr r, evs, s')"
  shows "\<exists>ys. length ys = length bs
           \<and> evs = concat (map (val_events (training s) bf) ys)
           \<and> r = (tps @ concat (map fst ys), tls @ concat (map snd ys))
           \<and> training s' = training s"
  using assms
proof (induction bs arbitrary: tps tls s evs)
  case Nil
  then show ?case by (auto elim!: ret_InrE)
next
  case (Cons bl bs)
  obtain b labels where bl: "bl = (b, labels)" by (cases bl)
  from Cons.prems obtain v1 e1 s1 e2 where
    st: "val_step env bf (tps, tls) (b, labels) s = (Inr v1, e1, s1)"
    and rest: "for_each bs (val_step env bf) v1 s1 = (Inr r, e2, s')"
    and evs: "evs = e1 @ e2"
    by (auto simp: bl elim!: andThen_InrE)
  from val_step_events[OF st] obtain ps where
    e1: "e1 = val_events (training s) bf (ps, labels)"
    and v1: "v1 = (tps @ ps, tls @ labels)" and t1: "training s1 = training s"
    by blast
  from Cons.IH[OF rest[unfolded v1]] obtain ys where
    ys: "length ys = length bs" "e2 = concat (map (val_events (training s1) bf) ys)"
      "r = ((tps @ ps) @ concat (map fst ys), (tls @ labels) @ concat (map snd ys))"
      "training s' = training s1"
    by blast
  show ?case
    by (rule exI[of _ "(ps, labels) # ys"]) (simp add: ys evs e1 t1 comp_def)
qed

lemma save_checkpoint_events:
  assumes "save_checkpoint env path epoch s = (Inr u, evs, s')"
  shows "evs = checkpoint_events path epoch \<and> training s' = training s"
  using assms unfolding save_checkpoint_def checkpoint_events_def
  by (auto elim!: andThen_InrE emit_InrE call_InrE dest!: on_fw_training)

lemma epoch_body_shape:
  assumes "epoch_body env bf flgs mg acc epoch s = (Inr u, evs, s')"
  shows "\<exists>xs ys ta va bs f1.
           evs = epoch_events (training s) bf flgs mg acc epoch xs ys ta va
         \<and> train_dataloader env (fw s) = (Inr bs, f1) \<and> length xs = length bs
         \<and> accuracy_score (concat (map (fst \<circ> snd) xs)) (concat (map (snd \<circ> snd) xs)) = Inr ta
         \<and> accuracy_score (concat (map fst ys)) (concat (map snd ys)) = Inr va
         \<and> training s' = training s"
proof -
  from assms[unfolded epoch_body_def] obtain bs s1 r1 e2 s2 ta vbs s3 r2 e4 s4 va e5 where
    tl: "on_fw (train_dataloader env) s = (Inr bs, s1)"
    and l1: "for_each bs (train_step env bf mg epoch) (Fin 0, [], []) s1 = (Inr r1, e2, s2)"
    and ta: "accuracy_score (fst (snd r1)) (snd (snd r1)) = Inr ta"
    and vl: "on_fw (val_dataloader env) s2 = (Inr vbs, s3)"
    and l2: "for_each vbs (val_step env bf) ([], []) s3 = (Inr r2, e4, s4)"
    and va: "accuracy_score (fst r2) (snd r2) = Inr va"
    and ck: "(if fgt va acc \<and> fgt va (Fin 0.8) \<and> flt va (Fin 0.95)
              then (if truthy (save_model_dir flgs)
                    then save_checkpoint env (the (save_model_dir flgs)) epoch else ret ())
              else ret ()) s4 = (Inr u, e5, s')"
    and evs: "evs = Call ''enumerate(train_dataloader)'' # e2
         @ [LogInfo ''Epoch Train Accuracy %.4f'' [AFloat acc], Call ''enumerate(val_dataloader)'']
         @ e4 @ [LogInfo ''Test Accuracy %.4f'' [AFloat va],
                 LogInfo ''Epoch %d, Loss %.4f'' [AInt epoch, AFloat (fst r1)],
                 AddScalar ''Accuracy/train'' ta epoch, AddScalar ''Accuracy/test'' va epoch] @ e5"
    by (auto elim!: andThen_InrE emit_InrE call_InrE pure_call_InrE split: prod.splits)
  from train_loop_shape[OF l1] obtain xs where
    xs: "length xs = length bs" "e2 = concat (map (step_events (training s1) bf mg epoch) xs)"
      "r1 = (fold (\<lambda>x a. fadd a (fst x)) xs (Fin 0), [] @ concat (map (fst \<circ> snd) xs),
             [] @ concat (map (snd \<circ> snd) xs))"
      "training s2 = training s1"
    by blast
  from val_loop_shape[OF l2] obtain ys where
    ys: "e4 = concat (map (val_events (training s3) bf) ys)"
      "r2 = ([] @ concat (map fst ys), [] @ concat (map snd ys))"
      "training s4 = training s3"
    by blast
  have t1: "training s1 = training s" and t3: "training s3 = training s2"
    using tl vl by (auto dest: on_fw_training)
  have e5: "e5 = (if fgt va acc \<and> fgt va (Fin 0.8) \<and> flt va (Fin 0.95)
                    \<and> truthy (save_model_dir flgs)
                  then checkpoint_events (the (save_model_dir flgs)) epoch else [])"
    and t5: "training s' = training s4"
    using ck by (auto split: if_splits elim!: ret_InrE dest: save_checkpoint_events)
  from tl obtain f1 where f1: "train_dataloader env (fw s) = (Inr bs, f1)"
    by (auto simp: on_fw_def split: prod.splits)
  show ?thesis
    apply (rule exI[of _ xs], rule exI[of _ ys], rule exI[of _ ta], rule exI[of _ va],
           rule exI[of _ bs], rule exI[of _ f1])
    using ta va by (simp add: epoch_events_def evs xs ys e5 t1 t3 t5 f1)
qed


section \<open>Observations distribute over the trace\<close>

lemma writer_entries_simps [simp]:
  "writer_entries [] = []"
  "writer_entries (ev # evs) = entry_of ev @ writer_entries evs"
  "writer_entries (a @ b) = writer_entries a @ writer_entries b"
  by (simp_all add: writer_entries_def)

lemma scalars_simps [simp]:
  "scalars tag [] = []"
  "scalars tag (ev # evs) = scalar_of tag ev @ scalars tag evs"
  "scalars tag (a @ b) = scalars tag a @ scalars tag b"
  by (simp_all add: scalars_def)

lemma info_logs_simps [simp]:
  "info_logs [] = []"
  "info_logs (ev # evs) = info_of ev @ info_logs evs"
  "info_logs (a @ b) = info_logs a @ info_logs b"
  by (simp_all add: info_logs_def)

lemma checkpoint_calls_simps [simp]:
  "checkpoint_calls [] = []"
  "checkpoint_calls (ev # evs) = (if is_checkpoint_call ev then ev # checkpoint_calls evs else checkpoint_calls evs)"
  "checkpoint_calls (a @ b) = checkpoint_calls a @ checkpoint_calls b"
  by (simp_all add: checkpoint_calls_def)

lemma saved_epochs_append [simp]:
  "saved_epochs (a @ b) = saved_epochs a @ saved_epochs b"
  by (simp add: saved_epochs_def)

lemma saved_epochs_Nil [simp]: "saved_epochs [] = []"
  by (simp add: saved_epochs_def)

lemma saved_epochs_Cons:
  "saved_epochs (ev # evs) = saved_epochs [ev] @ saved_epochs evs"
  using saved_epochs_append[of "[ev]" evs] by simp

lemma step_calls_simps [simp]:
  "step_calls [] = []"
  "step_calls (ev # evs) = step_call_of ev @ step_calls evs"
  "step_calls (a @ b) = step_calls a @ step_calls b"
  by (simp_all add: step_calls_def)

lemma phase_marks_simps [simp]:
  "phase_marks [] = []"
  "phase_marks (ev # evs) = mark_of ev @ phase_marks evs"
  "phase_marks (a @ b) = phase_marks a @ phase_marks b"
  by (simp_all add: phase_marks_def)

lemma accumulated_simps [simp]:
  "accumulated_preds ph [] = []"
  "accumulated_preds ph (ev # evs) = preds_of ph ev @ accumulated_preds ph evs"
  "accumulated_preds ph (a @ b) = accumulated_preds ph a @ accumulated_preds ph b"
  "accumulated_labels ph [] = []"
  "accumulated_labels ph (ev # evs) = labels_of ph ev @ accumulated_labels ph evs"
  "accumulated_labels ph (a @ b) = accumulated_labels ph a @ accumulated_labels ph b"
  by (simp_all add: accumulated_preds_def accumulated_labels_def)

text \<open>What the steps of a phase leave in each observation.\<close>

lemma steps_writer_entries:
  "writer_entries (concat (map (step_events m bf mg e) xs)) = replicate (length xs) (''Loss/train'', e)"
  by (induction xs) (auto simp: step_events_def)

lemma vals_writer_entries:
  "writer_entries (concat (map (val_events m bf) ys)) = []"
  by (induction ys) (auto simp: val_events_def)

lemma steps_scalars:
  "tag \<noteq> ''Loss/train'' \<Longrightarrow> scalars tag (concat (map (step_events m bf mg e) xs)) = []"
  by (induction xs) (auto simp: step_events_def)

lemma vals_scalars:
  "scalars tag (concat (map (val_events m bf) ys)) = []"
  by (induction ys) (auto simp: val_events_def)

lemma steps_info_logs: "info_logs (concat (map (step_events m bf mg e) xs)) = []"
  by (induction xs) (auto simp: step_events_def)

lemma vals_info_logs: "info_logs (concat (map (val_events m bf) ys)) = []"
  by (induction ys) (auto simp: val_events_def)

lemma steps_checkpoint_calls: "checkpoint_calls (concat (map (step_events m bf mg e) xs)) = []"
  by (induction xs) (auto simp: step_events_def)

lemma vals_checkpoint_calls: "checkpoint_calls (concat (map (val_events m bf) ys)) = []"
  by (induction ys) (auto simp: val_events_def)

lemma steps_saved_epochs: "saved_epochs (concat (map (step_events m bf mg e) xs)) = []"
  by (simp add: saved_epochs_def steps_info_logs)

lemma vals_saved_epochs: "saved_epochs (concat (map (val_events m bf) ys)) = []"
  by (simp add: saved_epochs_def vals_info_logs)

lemma steps_step_calls:
  "step_calls (concat (map (step_events m bf mg e) xs)) = concat (replicate (length xs) step_pattern)"
  by (induction xs) (auto simp: step_events_def step_pattern_def)

lemma vals_step_calls: "step_calls (concat (map (val_events m bf) ys)) = []"
  by (induction ys) (auto simp: val_events_def)

lemma steps_zero_grads:
  "length (filter (\<lambda>ev. ev = ZeroGrad) (concat (map (step_events m bf mg e) xs))) = length xs"
  by (induction xs) (auto simp: step_events_def)

lemma vals_zero_grads:
  "filter (\<lambda>ev. ev = ZeroGrad) (concat (map (val_events m bf) ys)) = []"
  by (induction ys) (auto simp: val_events_def)

lemma steps_phase_marks: "phase_marks (concat (map (step_events m bf mg e) xs)) = []"
  by (induction xs) (auto simp: step_events_def)

lemma vals_phase_marks: "phase_marks (concat (map (val_events m bf) ys)) = []"
  by (induction ys) (auto simp: val_events_def)

lemma steps_accumulated:
  "accumulated_preds Training (concat (map (step_events m bf mg e) xs)) = concat (map (fst \<circ> snd) xs)"
  "accumulated_labels Training (concat (map (step_events m bf mg e) xs)) = concat (map (snd \<circ> snd) xs)"
  "accumulated_preds Validation (concat (map (step_events m bf mg e) xs)) = []"
  "accumulated_labels Validation (concat (map (step_events m bf mg e) xs)) = []"
  by (induction xs) (auto simp: step_events_def)

lemma vals_accumulated:
  "accumulated_preds Validation (concat (map (val_events m bf) ys)) = concat (map fst ys)"
  "accumulated_labels Validation (concat (map (val_events m bf) ys)) = concat (map snd ys)"
  "accumulated_preds Training (concat (map (val_events m bf) ys)) = []"
  "accumulated_labels Training (concat (map (val_events m bf) ys)) = []"
  by (induction ys) (auto simp: val_events_def)

lemma step_events_set:
  "ev \<in> set (step_events m bf mg e x) \<Longrightarrow>
     ev \<noteq> ModelTrain \<and> ev \<noteq> ModelEval \<and> (\<forall>m' a l. ev = Forward m' a l \<longrightarrow> m' = m \<and> a = bf \<and> l)
     \<and> (\<forall>g. ev = ClipGradNorm g \<longrightarrow> g = mg)"
  by (cases x) (auto simp: step_events_def)

lemma val_events_set:
  "ev \<in> set (val_events m bf y) \<Longrightarrow>
     ev \<noteq> ModelTrain \<and> ev \<noteq> ModelEval \<and> (\<forall>m' a l. ev = Forward m' a l \<longrightarrow> m' = m \<and> a = bf \<and> \<not> l)
     \<and> (\<forall>g. ev \<noteq> ClipGradNorm g)"
  by (cases y) (auto simp: val_events_def)

lemma epoch_events_set:
  assumes "ev \<in> set (epoch_events m bf flgs mg acc e xs ys ta va)"
  shows "ev \<noteq> ModelTrain \<and> ev \<noteq> ModelEval
     \<and> (\<forall>m' a l. ev = Forward m' a l \<longrightarrow> m' = m \<and> a = bf)
     \<and> (\<forall>g. ev = ClipGradNorm g \<longrightarrow> g = mg)"
proof -
  from assms consider
      x where "x \<in> set xs" "ev \<in> set (step_events m bf mg e x)"
    | y where "y \<in> set ys" "ev \<in> set (val_events m bf y)"
    | "ev \<noteq> ModelTrain" "ev \<noteq> ModelEval" "\<forall>m' a l. ev \<noteq> Forward m' a l"
      "\<forall>g. ev \<noteq> ClipGradNorm g"
    unfolding epoch_events_def checkpoint_events_def
    by (auto split: if_splits)
  then show ?thesis
  proof cases
    case 1
    with step_events_set[OF 1(2)] show ?thesis by blast
  next
    case 2
    with val_events_set[OF 2(2)] show ?thesis by blast
  next
    case 3
    then show ?thesis by blast
  qed
qed



section \<open>The trace of an epoch and of a run\<close>

lemma epoch_events_writer_entries:
  "writer_entries (epoch_events m bf flgs mg acc e xs ys ta va) =
     replicate (length xs) (''Loss/train'', e) @ [(''Accuracy/train'', e), (''Accuracy/test'', e)]"
  by (simp add: epoch_events_def checkpoint_events_def steps_writer_entries vals_writer_entries)

lemma epoch_events_scalars:
  "scalars ''Accuracy/test'' (epoch_events m bf flgs mg acc e xs ys ta va) = [(va, e)]"
  "scalars ''Accuracy/train'' (epoch_events m bf flgs mg acc e xs ys ta va) = [(ta, e)]"
  by (simp_all add: epoch_events_def checkpoint_events_def steps_scalars vals_scalars)

lemma epoch_events_info_logs:
  "info_logs (epoch_events m bf flgs mg acc e xs ys ta va) =
     [(''Epoch Train Accuracy %.4f'', [AFloat acc]), (''Test Accuracy %.4f'', [AFloat va]),
      (''Epoch %d, Loss %.4f'', [AInt e, AFloat (fold (\<lambda>x a. fadd a (fst x)) xs (Fin 0))])]
     @ (if fgt va acc \<and> fgt va (Fin 0.8) \<and> flt va (Fin 0.95) \<and> truthy (save_model_dir flgs)
        then [(''Saved model files to %s'', [AStr (the (save_model_dir flgs))]),
              (''Saved model at epoch {epoch}'', [AInt e])]
        else [])"
  by (auto simp: epoch_events_def checkpoint_events_def steps_info_logs vals_info_logs)

lemma epoch_events_saved_epochs:
  "saved_epochs (epoch_events m bf flgs mg acc e xs ys ta va) =
     (if fgt va acc \<and> fgt va (Fin 0.8) \<and> flt va (Fin 0.95) \<and> truthy (save_model_dir flgs)
      then [e] else [])"
  by (auto simp: saved_epochs_def epoch_events_info_logs)

lemma epoch_events_checkpoint_calls:
  "checkpoint_calls (epoch_events m bf flgs mg acc e xs ys ta va) =
     (if fgt va acc \<and> fgt va (Fin 0.8) \<and> flt va (Fin 0.95) \<and> truthy (save_model_dir flgs)
      then [Mkdir (the (save_model_dir flgs)), SaveTokenizer (the (save_model_dir flgs)),
            SaveModel (the (save_model_dir flgs))]
      else [])"
  by (simp add: epoch_events_def checkpoint_events_def steps_checkpoint_calls
        vals_checkpoint_calls)

lemma epoch_events_step_calls:
  "step_calls (epoch_events m bf flgs mg acc e xs ys ta va) =
     concat (replicate (length xs) step_pattern)"
  by (simp add: epoch_events_def checkpoint_events_def steps_step_calls vals_step_calls)

lemma epoch_events_zero_grads:
  "length (filter (\<lambda>ev. ev = ZeroGrad) (epoch_events m bf flgs mg acc e xs ys ta va)) = length xs"
  by (simp add: epoch_events_def checkpoint_events_def steps_zero_grads vals_zero_grads)

lemma epoch_events_phase_marks:
  "phase_marks (epoch_events m bf flgs mg acc e xs ys ta va) =
     [PhaseStart Training, PhaseStart Validation, EpochEnd e]"
  by (simp add: epoch_events_def checkpoint_events_def steps_phase_marks vals_phase_marks)

lemma epoch_events_accumulated:
  "accumulated_preds Training (epoch_events m bf flgs mg acc e xs ys ta va) = concat (map (fst \<circ> snd) xs)"
  "accumulated_labels Training (epoch_events m bf flgs mg acc e xs ys ta va) = concat (map (snd \<circ> snd) xs)"
  "accumulated_preds Validation (epoch_events m bf flgs mg acc e xs ys ta va) = concat (map fst ys)"
  "accumulated_labels Validation (epoch_events m bf flgs mg acc e xs ys ta va) = concat (map snd ys)"
  by (simp_all add: epoch_events_def checkpoint_events_def steps_accumulated vals_accumulated)

lemma loop_body_shape:
  assumes "andThen (epoch_body env bf flgs mg acc e) (\<lambda>_. ret acc) s = (Inr r, evs, s')"
  shows "r = acc \<and> epoch_body env bf flgs mg acc e s = (Inr (), evs, s')"
  using assms by (auto elim!: andThen_InrE ret_InrE)

lemma epoch_loop_proj:
  assumes h0: "h [] = []" and happ: "\<And>a b. h (a @ b) = h a @ h b"
    and len: "\<And>f bs f'. train_dataloader env f = (Inr bs, f') \<Longrightarrow> Q (length bs)"
    and ep: "\<And>e xs ys ta va. Q (length xs) \<Longrightarrow>
               h (epoch_events m bf flgs mg acc0 e xs ys ta va) = g e"
    and run: "epoch_loop env bf flgs epochs mg acc0 s = (Inr a, evs, s')"
    and m: "training s = m"
  shows "h evs = concat (map g [1..epochs]) \<and> a = acc0 \<and> training s' = m"
proof -
  have "h evs = concat (map g [1..epochs]) \<and> (a = acc0 \<and> training s' = m)"
  proof (rule for_each_proj[where I = "\<lambda>v s. v = acc0 \<and> training s = m"
          and body = "\<lambda>acc epoch. andThen (epoch_body env bf flgs mg acc epoch) (\<lambda>_. ret acc)",
          OF h0 happ _ run[unfolded epoch_loop_def]])
    show "acc0 = acc0 \<and> training s = m" using m by simp
  next
    fix v x s0 r evs0 s0'
    assume inv: "v = acc0 \<and> training s0 = m"
      and b: "andThen (epoch_body env bf flgs mg v x) (\<lambda>_. ret v) s0 = (Inr r, evs0, s0')"
    from loop_body_shape[OF b] have r: "r = v"
      and eb: "epoch_body env bf flgs mg v x s0 = (Inr (), evs0, s0')" by auto
    from epoch_body_shape[OF eb] obtain xs ys ta va bs f1 where
      sh: "evs0 = epoch_events (training s0) bf flgs mg v x xs ys ta va"
        "train_dataloader env (fw s0) = (Inr bs, f1)" "length xs = length bs"
        "training s0' = training s0"
      by blast
    have "Q (length xs)" using len[OF sh(2)] sh(3) by simp
    from ep[OF this] show "h evs0 = g x \<and> r = acc0 \<and> training s0' = m"
      using inv r sh by simp
  qed
  then show ?thesis by simp
qed

lemma epoch_loop_closed:
  assumes P0: "P []" and Papp: "\<And>a b. P a \<Longrightarrow> P b \<Longrightarrow> P (a @ b)"
    and ep: "\<And>e xs ys ta va. P (epoch_events m bf flgs mg acc0 e xs ys ta va)"
    and run: "epoch_loop env bf flgs epochs mg acc0 s = (Inr a, evs, s')"
    and m: "training s = m"
  shows "P evs"
proof -
  have "P evs \<and> (a = acc0 \<and> training s' = m)"
  proof (rule for_each_closed[where I = "\<lambda>v s. v = acc0 \<and> training s = m"
          and body = "\<lambda>acc epoch. andThen (epoch_body env bf flgs mg acc epoch) (\<lambda>_. ret acc)",
          OF P0 Papp _ run[unfolded epoch_loop_def]])
    show "acc0 = acc0 \<and> training s = m" using m by simp
  next
    fix v x s0 r evs0 s0'
    assume inv: "v = acc0 \<and> training s0 = m"
      and b: "andThen (epoch_body env bf flgs mg v x) (\<lambda>_. ret v) s0 = (Inr r, evs0, s0')"
    from loop_body_shape[OF b] have r: "r = v"
      and eb: "epoch_body env bf flgs mg v x s0 = (Inr (), evs0, s0')" by auto
    from epoch_body_shape[OF eb] obtain xs ys ta va where
      sh: "evs0 = epoch_events (training s0) bf flgs mg v x xs ys ta va"
        "training s0' = training s0"
      by blast
    show "P evs0 \<and> r = acc0 \<and> training s0' = m"
      using inv r sh ep by simp
  qed
  then show ?thesis by simp
qed

lemma train_shape:
  assumes "train env bf flgs epochs mg s = (Inr u, evs, s')"
  shows "\<exists>evs0 s1. epoch_loop env bf flgs epochs mg (Fin 0) (s\<lparr>training := True\<rparr>)
                      = (Inr (Fin 0), evs0, s1)
           \<and> evs = WriterOpen ''tensorboard'' # ModelTrain # evs0 @ [WriterClose] \<and> s' = s1
           \<and> training s' = True"
proof -
  from assms[unfolded train_def] obtain a evs0 where
    lp: "epoch_loop env bf flgs epochs mg (Fin 0) (s\<lparr>training := True\<rparr>) = (Inr a, evs0, s')"
    and evs: "evs = WriterOpen ''tensorboard'' # ModelTrain # evs0 @ [WriterClose]"
    by (auto simp: model_train_def elim!: andThen_InrE emit_InrE)
  have "[] = concat (map (\<lambda>_. []) [1..epochs]) \<and> a = Fin 0 \<and> training s' = True"
    by (rule epoch_loop_proj[where h = "\<lambda>_. []" and Q = "\<lambda>_. True", OF _ _ _ _ lp]) simp_all
  with lp evs show ?thesis by simp
qed


text \<open>How the saves of a loop relate to the validation accuracies it logged.\<close>

lemma epoch_loop_test_steps:
  assumes run: "epoch_loop env bf flgs epochs mg acc0 s = (Inr a, evs, s')"
  shows "map snd (scalars ''Accuracy/test'' evs) = [1..epochs]"
  using epoch_loop_proj[where h = "\<lambda>evs. map snd (scalars ''Accuracy/test'' evs)"
      and Q = "\<lambda>_. True" and g = "\<lambda>e. [e]" and m = "training s", OF _ _ _ _ run]
  by (simp add: epoch_events_scalars)

lemma epoch_loop_saved:
  assumes run: "epoch_loop env bf flgs epochs mg acc0 s = (Inr a, evs, s')"
    and dir: "truthy (save_model_dir flgs)"
  shows "saved_epochs evs =
           map snd (filter (\<lambda>(v, e). fgt v acc0 \<and> fgt v (Fin 0.8) \<and> flt v (Fin 0.95))
                      (scalars ''Accuracy/test'' evs))
       \<and> checkpoint_calls evs =
           concat (map (\<lambda>e. [Mkdir (the (save_model_dir flgs)),
                               SaveTokenizer (the (save_model_dir flgs)),
                               SaveModel (the (save_model_dir flgs))]) (saved_epochs evs))"
    (is "?P evs")
proof (rule epoch_loop_closed[where P = ?P and m = "training s", OF _ _ _ run])
  show "?P []" by simp
next
  fix a b assume "?P a" "?P b" then show "?P (a @ b)" by simp
next
  fix e xs ys ta va
  show "?P (epoch_events (training s) bf flgs mg acc0 e xs ys ta va)"
    using dir
    by (simp add: epoch_events_saved_epochs epoch_events_scalars epoch_events_checkpoint_calls)
qed simp

lemma run_observation:
  assumes h1: "\<And>ev evs. h (ev # evs) = h [ev] @ h evs" and happ: "\<And>a b. h (a @ b) = h a @ h b"
    and o: "h [WriterOpen ''tensorboard''] = []" and t: "h [ModelTrain] = []"
    and c: "h [WriterClose] = []" and n: "h [] = []"
  shows "h (WriterOpen ''tensorboard'' # ModelTrain # evs0 @ [WriterClose]) = h evs0"
  using h1[of "WriterOpen ''tensorboard''" "ModelTrain # evs0 @ [WriterClose]"]
    h1[of ModelTrain "evs0 @ [WriterClose]"] happ[of evs0 "[WriterClose]"] o t c n
  by simp

lemma length_concat_replicate:
  "length (concat (map (\<lambda>e. replicate M (f e)) xs)) = length xs * M"
  by (induction xs) simp_all


lemma steps_loss_scalars:
  "map snd (scalars ''Loss/train'' (concat (map (step_events m bf mg e) xs)))
     = replicate (length xs) e"
  by (induction xs) (auto simp: step_events_def)

lemma epoch_events_loss_scalars:
  "map snd (scalars ''Loss/train'' (epoch_events m bf flgs mg acc e xs ys ta va))
     = replicate (length xs) e"
  by (simp add: epoch_events_def checkpoint_events_def steps_loss_scalars vals_scalars)

lemma loss_items_simps [simp]:
  "loss_items [] = []"
  "loss_items (ev # evs) = loss_item_of ev @ loss_items evs"
  "loss_items (a @ b) = loss_items a @ loss_items b"
  by (simp_all add: loss_items_def)

lemma steps_loss_items:
  "loss_items (concat (map (step_events m bf mg e) xs)) = map fst xs"
  by (induction xs) (auto simp: step_events_def)

lemma vals_loss_items: "loss_items (concat (map (val_events m bf) ys)) = []"
  by (induction ys) (auto simp: val_events_def)

lemma epoch_events_loss_items:
  "loss_items (epoch_events m bf flgs mg acc e xs ys ta va) = map fst xs"
  by (simp add: epoch_events_def checkpoint_events_def steps_loss_items vals_loss_items)

lemma epoch_loop_events_set:
  assumes run: "epoch_loop env bf flgs epochs mg acc0 s = (Inr a, evs, s')"
  shows "\<forall>ev \<in> set evs. ev \<noteq> ModelTrain \<and> ev \<noteq> ModelEval
           \<and> (\<forall>m a l. ev = Forward m a l \<longrightarrow> m = training s \<and> a = bf)
           \<and> (\<forall>g. ev = ClipGradNorm g \<longrightarrow> g = mg)"
    (is "?P evs")
proof (rule epoch_loop_closed[where P = ?P and m = "training s", OF _ _ _ run])
  show "?P []" by simp
next
  fix a b assume "?P a" "?P b" then show "?P (a @ b)" by auto
next
  fix e xs ys ta va
  show "?P (epoch_events (training s) bf flgs mg acc0 e xs ys ta va)"
    using epoch_events_set by blast
qed simp

lemma epoch_loop_step_calls:
  assumes run: "epoch_loop env bf flgs epochs mg acc0 s = (Inr a, evs, s')"
  shows "step_calls evs
           = concat (replicate (length (filter (\<lambda>ev. ev = ZeroGrad) evs)) step_pattern)"
    (is "?P evs")
proof (rule epoch_loop_closed[where P = ?P and m = "training s", OF _ _ _ run])
  show "?P []" by simp
next
  fix a b assume "?P a" "?P b" then show "?P (a @ b)" by (simp add: replicate_add)
next
  fix e xs ys ta va
  show "?P (epoch_events (training s) bf flgs mg acc0 e xs ys ta va)"
    by (simp add: epoch_events_step_calls epoch_events_zero_grads)
qed simp


section \<open>The small run, evaluated\<close>


lemma upto_1_2: "[1..2::int] = [1, 2]"
  by (simp add: upto_rec1)

lemma demo_epoch_1:
  "epoch_body demo_torch False demo_flags (Fin 10) (Fin 0) 1 \<lparr>training = True, fw = 0\<rparr>
     = (Inr (), demo_epoch1, \<lparr>training = True, fw = 2\<rparr>)"
  by (simp add: epoch_body_def train_step_def val_step_def save_checkpoint_def andThen_def
        call_def pure_call_def emit_def ret_def model_forward_def on_fw_def demo_torch_def
        demo_flags_def demo_batch_def demo_predict_def demo_epoch1_def accuracy_score_def
        argmax_last_def)

lemma demo_epoch_2:
  "epoch_body demo_torch False demo_flags (Fin 10) (Fin 0) 2 \<lparr>training = True, fw = 2\<rparr>
     = (Inr (), demo_epoch2, \<lparr>training = True, fw = 4\<rparr>)"
  by (simp add: epoch_body_def train_step_def val_step_def save_checkpoint_def andThen_def
        call_def pure_call_def emit_def ret_def model_forward_def on_fw_def demo_torch_def
        demo_flags_def demo_batch_def demo_predict_def demo_epoch2_def accuracy_score_def
        argmax_last_def)

lemma demo_loop:
  "epoch_loop demo_torch False demo_flags 2 (Fin 10) (Fin 0) \<lparr>training = True, fw = 0\<rparr>
     = (Inr (Fin 0), demo_epoch1 @ demo_epoch2, \<lparr>training = True, fw = 4\<rparr>)"
  by (simp add: epoch_loop_def upto_1_2 demo_epoch_1 demo_epoch_2 andThen_def ret_def)

lemma demo_run:
  "train demo_torch False demo_flags 2 (Fin 10) demo_trainer
     = (Inr (), WriterOpen ''tensorboard'' # ModelTrain # (demo_epoch1 @ demo_epoch2) @ [WriterClose],
        \<lparr>training = True, fw = 4\<rparr>)"
  by (simp add: train_def model_train_def demo_trainer_def demo_loop andThen_def emit_def)

lemma demo_loop1:
  "epoch_loop demo_torch False demo_flags 1 (Fin 10) (Fin 0) \<lparr>training = True, fw = 0\<rparr>
     = (Inr (Fin 0), demo_epoch1, \<lparr>training = True, fw = 2\<rparr>)"
  by (simp add: epoch_loop_def upto_rec1 demo_epoch_1 andThen_def ret_def)

lemma demo_run1:
  "train demo_torch False demo_flags 1 (Fin 10) demo_trainer
     = (Inr (), WriterOpen ''tensorboard'' # ModelTrain # demo_epoch1 @ [WriterClose],
        \<lparr>training = True, fw = 2\<rparr>)"
  by (simp add: train_def model_train_def demo_trainer_def demo_loop1 andThen_def emit_def)


section \<open>The discipline of exceptions\<close>

lemma no_raise_simps [simp]:
  "no_raise []"
  "no_raise (ev # evs) = ((\<forall>n e. ev \<noteq> Raised n e) \<and> no_raise evs)"
  "no_raise (a @ b) = (no_raise a \<and> no_raise b)"
  by (auto simp: no_raise_def)

lemma disciplined_ret: "disciplined ok (ret a)"
  by (simp add: disciplined_def ret_def)

lemma disciplined_emit: "(\<And>n e. ev \<noteq> Raised n e) \<Longrightarrow> disciplined ok (emit ev)"
  by (simp add: disciplined_def emit_def)

lemma disciplined_call:
  "(\<And>n e. ev \<noteq> Raised n e) \<Longrightarrow> ok name \<Longrightarrow> disciplined ok (call name ev f)"
  by (auto simp: disciplined_def call_def split: prod.splits sum.splits
      intro!: exI[of _ "[ev]"])

lemma disciplined_pure_call: "ok name \<Longrightarrow> disciplined ok (pure_call name r)"
  by (auto simp: disciplined_def pure_call_def split: sum.splits)

lemma disciplined_andThen:
  assumes m: "disciplined ok m" and k: "\<And>a. disciplined ok (k a)"
  shows "disciplined ok (andThen m k)"
  unfolding disciplined_def
proof
  fix s
  obtain r evs s1 where ms: "m s = (r, evs, s1)" by (cases "m s")
  show "case andThen m k s of
          (Inl e, evs, s') \<Rightarrow> \<exists>n pre. evs = pre @ [Raised n e] \<and> no_raise pre \<and> ok n
        | (Inr a, evs, s') \<Rightarrow> no_raise evs"
  proof (cases r)
    case (Inl e)
    with m[unfolded disciplined_def, rule_format, of s] ms show ?thesis
      by (simp add: andThen_def)
  next
    case (Inr a)
    with m[unfolded disciplined_def, rule_format, of s] ms have nr: "no_raise evs" by simp
    obtain r2 evs2 s2 where ks: "k a s1 = (r2, evs2, s2)" by (cases "k a s1")
    show ?thesis
    proof (cases r2)
      case (Inl e)
      with k[of a, unfolded disciplined_def, rule_format, of s1] ks obtain n pre where
        "evs2 = pre @ [Raised n e]" "no_raise pre" "ok n" by auto
      then have "evs @ evs2 = (evs @ pre) @ [Raised n e] \<and> no_raise (evs @ pre) \<and> ok n"
        using nr by simp
      then show ?thesis
        using ms ks Inr Inl by (auto simp: andThen_def simp del: append_assoc)
    next
      case Inr2: (Inr b)
      with k[of a, unfolded disciplined_def, rule_format, of s1] ks have "no_raise evs2" by simp
      then show ?thesis
        using ms ks Inr Inr2 nr by (simp add: andThen_def)
    qed
  qed
qed

lemma disciplined_state_choice:
  assumes "\<And>s. disciplined ok (f s)"
  shows "disciplined ok (\<lambda>s. f s s)"
  using assms by (simp add: disciplined_def)

lemma disciplined_quantize_and_save:
  "disciplined (\<lambda>n. n \<noteq> ''read_and_preprocess_data'') (quantize_and_save env flgs loader)"
proof -
  have c: "disciplined (\<lambda>n. n \<noteq> ''read_and_preprocess_data'') (copy_auxiliary_files flgs)"
    unfolding copy_auxiliary_files_def
    by (rule disciplined_state_choice[where f = "\<lambda>w. if entry_exists (fs w) (output_dir flgs) ''best_model.pt''
          then call ''shutil.copytree'' (Call ''shutil.copytree'')
            (on_fs (copytree (saved_model_dir flgs) (output_dir flgs) (ignore_patterns ''*.bin*'')))
          else ret ()", simplified if_distribR])
      (simp add: disciplined_call disciplined_ret)
  show ?thesis
    unfolding quantize_and_save_def quantize_model_def
    by (intro disciplined_andThen disciplined_call c) simp_all
qed



section \<open>Claims about the training loop\<close>

text \<open>
  C1. The epoch loop of \<^verbatim>\<open>train\<close> is run here from any value \<open>acc0\<close> of the best-accuracy
  variable (\<^verbatim>\<open>train\<close> enters it with 0). In a run that returns and has a save directory
  configured, the epochs after which the checkpoint-save step ran are exactly those whose
  validation accuracy, as logged under \<^verbatim>\<open>Accuracy/test\<close>, exceeds the variable and lies
  strictly between 0.80 and 0.95; each save creates the directory, then persists the
  tokenizer, then the model; an accuracy that is not a number, is at most 0.80 or is at
  least 0.95 gives no save in its epoch.
\<close>

theorem checkpoint_iff_exceeds_and_in_band:
  assumes run: "epoch_loop env bf flgs epochs mg acc0 s = (Inr a, evs, s')"
    and dir: "truthy (save_model_dir flgs)"
  shows "map snd (scalars ''Accuracy/test'' evs) = [1..epochs]
    \<and> saved_epochs evs =
        map snd (filter (\<lambda>(v, e). fgt v acc0 \<and> fgt v (Fin 0.8) \<and> flt v (Fin 0.95))
                   (scalars ''Accuracy/test'' evs))
    \<and> checkpoint_calls evs =
        concat (map (\<lambda>e. [Mkdir (the (save_model_dir flgs)),
                            SaveTokenizer (the (save_model_dir flgs)),
                            SaveModel (the (save_model_dir flgs))]) (saved_epochs evs))
    \<and> (\<forall>v e. (v, e) \<in> set (scalars ''Accuracy/test'' evs) \<longrightarrow>
           (v = NaN \<or> (\<exists>x. v = Fin x \<and> (x \<le> 0.8 \<or> 0.95 \<le> x))) \<longrightarrow>
           e \<notin> set (saved_epochs evs))"
proof -
  let ?c = "\<lambda>(v, e::int). fgt v acc0 \<and> fgt v (Fin 0.8) \<and> flt v (Fin 0.95)"
  note steps = epoch_loop_test_steps[OF run]
  note P = epoch_loop_saved[OF run dir]
  have excl: "e \<notin> set (saved_epochs evs)"
    if mem: "(v, e) \<in> set (scalars ''Accuracy/test'' evs)"
      and out: "v = NaN \<or> (\<exists>x. v = Fin x \<and> (x \<le> 0.8 \<or> 0.95 \<le> x))" for v e
  proof
    assume "e \<in> set (saved_epochs evs)"
    with P have "e \<in> snd ` set (filter ?c (scalars ''Accuracy/test'' evs))"
      by simp
    then obtain v' where v': "(v', e) \<in> set (scalars ''Accuracy/test'' evs)"
      and c: "fgt v' acc0 \<and> fgt v' (Fin 0.8) \<and> flt v' (Fin 0.95)"
      by force
    have "distinct (map snd (scalars ''Accuracy/test'' evs))"
      unfolding steps by simp
    then have "inj_on snd (set (scalars ''Accuracy/test'' evs))"
      by (simp add: distinct_map)
    from inj_onD[OF this _ v' mem] have "v' = v" by simp
    with c have c': "fgt v (Fin 0.8)" "flt v (Fin 0.95)" by simp_all
    from out show False
    proof
      assume "v = NaN" with c' show False by simp
    next
      assume "\<exists>x. v = Fin x \<and> (x \<le> 0.8 \<or> 0.95 \<le> x)"
      then obtain x where "v = Fin x" "x \<le> 0.8 \<or> 0.95 \<le> x" by blast
      with c' show False by auto
    qed
  qed
  show ?thesis
    using steps P excl by (intro conjI allI impI) simp_all
qed

theorem checkpoint_iff_exceeds_and_in_band_witness:
  "epoch_loop demo_torch False demo_flags 2 (Fin 10) (Fin 0) \<lparr>training = True, fw = 0\<rparr>
     = (Inr (Fin 0), demo_epoch1 @ demo_epoch2, \<lparr>training = True, fw = 4\<rparr>)
   \<and> truthy (save_model_dir demo_flags)
   \<and> scalars ''Accuracy/test'' (demo_epoch1 @ demo_epoch2) = [(Fin (5 / 6), 1), (Fin 1, 2)]
   \<and> saved_epochs (demo_epoch1 @ demo_epoch2) = [1]
   \<and> checkpoint_calls (demo_epoch1 @ demo_epoch2)
       = [Mkdir ''saved'', SaveTokenizer ''saved'', SaveModel ''saved'']
   \<and> 2 \<notin> set (saved_epochs (demo_epoch1 @ demo_epoch2))"
proof -
  have dir: "truthy (save_model_dir demo_flags)" by (simp add: demo_flags_def)
  have sc: "scalars ''Accuracy/test'' (demo_epoch1 @ demo_epoch2) = [(Fin (5 / 6), 1), (Fin 1, 2)]"
    by (simp add: demo_epoch1_def demo_epoch2_def)
  note th = checkpoint_iff_exceeds_and_in_band[OF demo_loop dir, unfolded sc]
  have se: "saved_epochs (demo_epoch1 @ demo_epoch2) = [1]"
    using th[THEN conjunct2, THEN conjunct1] by simp
  have cc: "checkpoint_calls (demo_epoch1 @ demo_epoch2)
       = [Mkdir ''saved'', SaveTokenizer ''saved'', SaveModel ''saved'']"
    using th[THEN conjunct2, THEN conjunct2, THEN conjunct1] unfolding se
    by (simp add: demo_flags_def)
  have n2: "2 \<notin> set (saved_epochs (demo_epoch1 @ demo_epoch2))"
    unfolding se by simp
  from demo_loop dir sc se cc n2 show ?thesis by blast
qed


text \<open>
  C2. \<^verbatim>\<open>train\<close> enters the epoch loop with the best-accuracy variable at 0, and the loop,
  after any number of epochs, leaves it at 0: no epoch assigns it. So in a run that returns
  and has a save directory configured, the comparison with the variable drops out: the epochs
  that saved are exactly those whose logged validation accuracy lies strictly between 0.80
  and 0.95, each of them saving again.
\<close>

theorem best_accuracy_stays_zero:
  assumes run: "train env bf flgs epochs mg s = (Inr (), evs, s')"
  shows "(\<exists>evs0. epoch_loop env bf flgs epochs mg (Fin 0) (s\<lparr>training := True\<rparr>)
                    = (Inr (Fin 0), evs0, s')
                \<and> evs = WriterOpen ''tensorboard'' # ModelTrain # evs0 @ [WriterClose])
    \<and> (\<forall>k s0 a evs0 s1. epoch_loop env bf flgs k mg (Fin 0) s0 = (Inr a, evs0, s1)
           \<longrightarrow> a = Fin 0)
    \<and> (truthy (save_model_dir flgs) \<longrightarrow>
         saved_epochs evs =
           map snd (filter (\<lambda>(v, e). fgt v (Fin 0.8) \<and> flt v (Fin 0.95))
                      (scalars ''Accuracy/test'' evs)))"
proof -
  from train_shape[OF run] obtain evs0 where
    lp: "epoch_loop env bf flgs epochs mg (Fin 0) (s\<lparr>training := True\<rparr>) = (Inr (Fin 0), evs0, s')"
    and evs: "evs = WriterOpen ''tensorboard'' # ModelTrain # evs0 @ [WriterClose]"
    by auto
  have const: "a = Fin 0"
    if "epoch_loop env bf flgs k mg (Fin 0) s0 = (Inr a, evs1, s1)" for k s0 a evs1 s1
    using epoch_loop_proj[where h = "\<lambda>_. []" and Q = "\<lambda>_. True" and g = "\<lambda>_. []"
        and m = "training s0", OF _ _ _ _ that]
    by simp
  have saved: "saved_epochs evs =
           map snd (filter (\<lambda>(v, e). fgt v (Fin 0.8) \<and> flt v (Fin 0.95))
                      (scalars ''Accuracy/test'' evs))"
    if dir: "truthy (save_model_dir flgs)"
  proof -
    have zero: "(fgt v (Fin 0) \<and> fgt v (Fin 0.8) \<and> flt v (Fin 0.95))
                  = (fgt v (Fin 0.8) \<and> flt v (Fin 0.95))" for v
      by (cases v) auto
    have "saved_epochs evs0 =
        map snd (filter (\<lambda>(v, e). fgt v (Fin 0) \<and> fgt v (Fin 0.8) \<and> flt v (Fin 0.95))
                   (scalars ''Accuracy/test'' evs0))"
      using epoch_loop_saved[OF lp dir] by simp
    moreover have "saved_epochs evs = saved_epochs evs0"
      unfolding evs by (rule run_observation) (simp_all add: saved_epochs_def)
    moreover have "scalars ''Accuracy/test'' evs = scalars ''Accuracy/test'' evs0"
      unfolding evs by (rule run_observation) simp_all
    ultimately show ?thesis
      unfolding zero by simp
  qed
  from lp evs const saved show ?thesis by blast
qed

theorem best_accuracy_stays_zero_witness:
  "train demo_torch False demo_flags 2 (Fin 10) demo_trainer
     = (Inr (), WriterOpen ''tensorboard'' # ModelTrain # (demo_epoch1 @ demo_epoch2)
                  @ [WriterClose], \<lparr>training = True, fw = 4\<rparr>)
   \<and> epoch_loop demo_torch False demo_flags 2 (Fin 10) (Fin 0) \<lparr>training = True, fw = 0\<rparr>
       = (Inr (Fin 0), demo_epoch1 @ demo_epoch2, \<lparr>training = True, fw = 4\<rparr>)
   \<and> truthy (save_model_dir demo_flags)
   \<and> saved_epochs (WriterOpen ''tensorboard'' # ModelTrain # (demo_epoch1 @ demo_epoch2)
                      @ [WriterClose]) = [1]"
proof -
  let ?T = "WriterOpen ''tensorboard'' # ModelTrain # (demo_epoch1 @ demo_epoch2) @ [WriterClose]"
  have dir: "truthy (save_model_dir demo_flags)" by (simp add: demo_flags_def)
  have sc: "scalars ''Accuracy/test'' ?T = [(Fin (5 / 6), 1), (Fin 1, 2)]"
    by (simp add: demo_epoch1_def demo_epoch2_def)
  note th = best_accuracy_stays_zero[OF demo_run, THEN conjunct2, THEN conjunct2, rule_format,
      OF dir, unfolded sc]
  have se: "saved_epochs ?T = [1]"
    using th by simp
  from demo_run demo_loop dir se show ?thesis by blast
qed



text \<open>
  C3, as the spec states it: a run of \<open>N\<close> epochs gives the metrics writer exactly \<open>N\<close> loss
  entries. The loss is written inside the loop over the batches (lines 83 to 87), so one
  epoch over a loader of two batches already gives two entries.
\<close>

theorem loss_entries_per_batch_counterexample:
  "fst (train demo_torch False demo_flags 1 (Fin 10) demo_trainer) = Inr ()
   \<and> length (scalars ''Loss/train''
               (fst (snd (train demo_torch False demo_flags 1 (Fin 10) demo_trainer)))) = 2
   \<and> length (scalars ''Loss/train''
               (fst (snd (train demo_torch False demo_flags 1 (Fin 10) demo_trainer)))) \<noteq> 1"
  by (simp add: demo_run1 demo_epoch1_def)


text \<open>
  C3, amended. In a run of \<open>N\<close> epochs that returns, over a training loader that yields \<open>M\<close>
  batches each time, the metrics writer receives one loss entry for each batch, \<open>N * M\<close> in
  all, each keyed by the epoch of its batch and in epoch order, and exactly \<open>N\<close> pairs of a
  train-accuracy and a validation-accuracy entry, keyed by the epoch and in epoch order.
\<close>

theorem loss_entries_per_batch:
  assumes run: "train env bf flgs (int N) mg s = (Inr (), evs, s')"
    and len: "\<And>f bs f'. train_dataloader env f = (Inr bs, f') \<Longrightarrow> length bs = M"
  shows "filter (\<lambda>(t, e). t = ''Loss/train'') (writer_entries evs) =
           concat (map (\<lambda>e. replicate M (''Loss/train'', e)) [1..int N])
    \<and> length (scalars ''Loss/train'' evs) = N * M
    \<and> filter (\<lambda>(t, e). t \<noteq> ''Loss/train'') (writer_entries evs) =
           concat (map (\<lambda>e. [(''Accuracy/train'', e), (''Accuracy/test'', e)]) [1..int N])
    \<and> map snd (scalars ''Accuracy/train'' evs) = [1..int N]
    \<and> map snd (scalars ''Accuracy/test'' evs) = [1..int N]"
proof -
  from train_shape[OF run] obtain evs0 where
    lp: "epoch_loop env bf flgs (int N) mg (Fin 0) (s\<lparr>training := True\<rparr>) = (Inr (Fin 0), evs0, s')"
    and evs: "evs = WriterOpen ''tensorboard'' # ModelTrain # evs0 @ [WriterClose]"
    by auto
  have we: "writer_entries evs = writer_entries evs0"
    unfolding evs by (rule run_observation) simp_all
  have sc: "scalars tag evs = scalars tag evs0" for tag
    unfolding evs by (rule run_observation) simp_all
  have a: "filter (\<lambda>(t, e). t = ''Loss/train'') (writer_entries evs0) =
           concat (map (\<lambda>e. replicate M (''Loss/train'', e)) [1..int N])"
    using epoch_loop_proj[where h = "\<lambda>evs. filter (\<lambda>(t, e). t = ''Loss/train'') (writer_entries evs)"
        and Q = "\<lambda>n. n = M" and g = "\<lambda>e. replicate M (''Loss/train'', e)"
        and m = True, OF _ _ _ _ lp] len
    by (simp add: epoch_events_writer_entries)
  have b: "map snd (scalars ''Loss/train'' evs0) = concat (map (\<lambda>e. replicate M e) [1..int N])"
    using epoch_loop_proj[where h = "\<lambda>evs. map snd (scalars ''Loss/train'' evs)"
        and Q = "\<lambda>n. n = M" and g = "\<lambda>e. replicate M e"
        and m = True, OF _ _ _ _ lp] len
    by (simp add: epoch_events_loss_scalars)
  have "length (map snd (scalars ''Loss/train'' evs0)) = N * M"
    unfolding b by (simp add: length_concat_replicate)
  then have b': "length (scalars ''Loss/train'' evs0) = N * M" by simp
  have c: "filter (\<lambda>(t, e). t \<noteq> ''Loss/train'') (writer_entries evs0) =
           concat (map (\<lambda>e. [(''Accuracy/train'', e), (''Accuracy/test'', e)]) [1..int N])"
    using epoch_loop_proj[where h = "\<lambda>evs. filter (\<lambda>(t, e). t \<noteq> ''Loss/train'') (writer_entries evs)"
        and Q = "\<lambda>n. True" and g = "\<lambda>e. [(''Accuracy/train'', e), (''Accuracy/test'', e)]"
        and m = True, OF _ _ _ _ lp]
    by (simp add: epoch_events_writer_entries)
  have d: "map snd (scalars ''Accuracy/train'' evs0) = [1..int N]"
    using epoch_loop_proj[where h = "\<lambda>evs. map snd (scalars ''Accuracy/train'' evs)"
        and Q = "\<lambda>_. True" and g = "\<lambda>e. [e]" and m = True, OF _ _ _ _ lp]
    by (simp add: epoch_events_scalars)
  note e = epoch_loop_test_steps[OF lp]
  from a b' c d e show ?thesis by (simp add: we sc)
qed

theorem loss_entries_per_batch_witness:
  "train demo_torch False demo_flags (int 2) (Fin 10) demo_trainer
     = (Inr (), WriterOpen ''tensorboard'' # ModelTrain # (demo_epoch1 @ demo_epoch2)
                  @ [WriterClose], \<lparr>training = True, fw = 4\<rparr>)
   \<and> length (scalars ''Loss/train'' (WriterOpen ''tensorboard'' # ModelTrain
                 # (demo_epoch1 @ demo_epoch2) @ [WriterClose])) = 2 * 2
   \<and> filter (\<lambda>(t, e). t \<noteq> ''Loss/train'')
        (writer_entries (WriterOpen ''tensorboard'' # ModelTrain
                 # (demo_epoch1 @ demo_epoch2) @ [WriterClose]))
      = [(''Accuracy/train'', 1), (''Accuracy/test'', 1),
         (''Accuracy/train'', 2), (''Accuracy/test'', 2)]"
proof -
  have run: "train demo_torch False demo_flags (int 2) (Fin 10) demo_trainer
     = (Inr (), WriterOpen ''tensorboard'' # ModelTrain # (demo_epoch1 @ demo_epoch2)
                  @ [WriterClose], \<lparr>training = True, fw = 4\<rparr>)"
    using demo_run by simp
  have len: "length bs = 2" if "train_dataloader demo_torch f = (Inr bs, f')" for f bs f'
    using that by (auto simp: demo_torch_def)
  have up: "[1..int 2] = [1, 2]" by (simp add: upto_rec1)
  note th = loss_entries_per_batch[OF run len, unfolded up]
  from run th[THEN conjunct2, THEN conjunct1] th[THEN conjunct2, THEN conjunct2, THEN conjunct1]
  show ?thesis by simp
qed



text \<open>
  C8. In a run that returns, the epochs are 1 to \<open>epochs\<close> in order, each with its pass over
  the training loader, then its pass over the validation loader, then its end: none is cut
  short and no phase is left out. The calls of the training steps are, step after step:
  clear the gradients, forward pass, extend the predicted labels, clip the gradient norm,
  backward pass, optimizer step, read the scalar loss. Every forward pass runs under
  autocast exactly when \<open>enable_bf16\<close> is set, and every clipping uses \<open>max_grad_norm\<close>.
\<close>

theorem epochs_and_step_order:
  assumes run: "train env bf flgs epochs mg s = (Inr (), evs, s')"
  shows "phase_marks evs =
           concat (map (\<lambda>e. [PhaseStart Training, PhaseStart Validation, EpochEnd e]) [1..epochs])
    \<and> step_calls evs
         = concat (replicate (length (filter (\<lambda>ev. ev = ZeroGrad) evs)) step_pattern)
    \<and> (\<forall>m a l. Forward m a l \<in> set evs \<longrightarrow> a = bf)
    \<and> (\<forall>g. ClipGradNorm g \<in> set evs \<longrightarrow> g = mg)"
proof -
  from train_shape[OF run] obtain evs0 where
    lp: "epoch_loop env bf flgs epochs mg (Fin 0) (s\<lparr>training := True\<rparr>) = (Inr (Fin 0), evs0, s')"
    and evs: "evs = WriterOpen ''tensorboard'' # ModelTrain # evs0 @ [WriterClose]"
    by auto
  have pm: "phase_marks evs = phase_marks evs0"
    unfolding evs by (rule run_observation) simp_all
  have sc: "step_calls evs = step_calls evs0"
    unfolding evs by (rule run_observation) simp_all
  have zg: "filter (\<lambda>ev. ev = ZeroGrad) evs = filter (\<lambda>ev. ev = ZeroGrad) evs0"
    unfolding evs by simp
  have a: "phase_marks evs0 =
           concat (map (\<lambda>e. [PhaseStart Training, PhaseStart Validation, EpochEnd e]) [1..epochs])"
    using epoch_loop_proj[where h = phase_marks and Q = "\<lambda>_. True"
        and g = "\<lambda>e. [PhaseStart Training, PhaseStart Validation, EpochEnd e]"
        and m = True, OF _ _ _ _ lp]
    by (simp add: epoch_events_phase_marks)
  note b = epoch_loop_step_calls[OF lp]
  note c = epoch_loop_events_set[OF lp]
  have d: "\<forall>m a l. Forward m a l \<in> set evs \<longrightarrow> a = bf"
    using c unfolding evs by auto
  have e: "\<forall>g. ClipGradNorm g \<in> set evs \<longrightarrow> g = mg"
    using c unfolding evs by auto
  from a b d e show ?thesis by (simp add: pm sc zg)
qed

theorem epochs_and_step_order_witness:
  "train demo_torch False demo_flags 2 (Fin 10) demo_trainer
     = (Inr (), WriterOpen ''tensorboard'' # ModelTrain # (demo_epoch1 @ demo_epoch2)
                  @ [WriterClose], \<lparr>training = True, fw = 4\<rparr>)
   \<and> phase_marks (WriterOpen ''tensorboard'' # ModelTrain # (demo_epoch1 @ demo_epoch2)
                  @ [WriterClose])
       = [PhaseStart Training, PhaseStart Validation, EpochEnd 1,
          PhaseStart Training, PhaseStart Validation, EpochEnd 2]
   \<and> step_calls (WriterOpen ''tensorboard'' # ModelTrain # (demo_epoch1 @ demo_epoch2)
                  @ [WriterClose])
       = step_pattern @ step_pattern @ step_pattern @ step_pattern"
proof -
  let ?T = "WriterOpen ''tensorboard'' # ModelTrain # (demo_epoch1 @ demo_epoch2) @ [WriterClose]"
  have up: "[1..2::int] = [1, 2]" by (simp add: upto_rec1)
  have zg: "length (filter (\<lambda>ev. ev = ZeroGrad) ?T) = 4"
    by (simp add: demo_epoch1_def demo_epoch2_def)
  note th = epochs_and_step_order[OF demo_run, unfolded up zg]
  have r4: "replicate 4 step_pattern = [step_pattern, step_pattern, step_pattern, step_pattern]"
    by (simp add: numeral_eq_Suc)
  have a: "phase_marks ?T = [PhaseStart Training, PhaseStart Validation, EpochEnd 1,
          PhaseStart Training, PhaseStart Validation, EpochEnd 2]"
    using th[THEN conjunct1] by simp
  have b: "step_calls ?T = step_pattern @ step_pattern @ step_pattern @ step_pattern"
    using th[THEN conjunct2, THEN conjunct1] unfolding r4 by simp
  from demo_run a b show ?thesis by blast
qed



text \<open>
  C9. In a run that returns, the message \<^verbatim>\<open>Epoch Train Accuracy\<close> is logged once per epoch
  and always carries 0, the value of the best-accuracy variable. In any epoch that returns,
  the message carries the variable \<open>acc\<close>, while the accuracy computed from the predictions
  and labels accumulated in the training phase is the value written under
  \<^verbatim>\<open>Accuracy/train\<close>; the other messages carry the validation accuracy, the epoch and the
  summed loss, so the training accuracy reaches the metrics writer only.
\<close>

theorem log_reports_variable_not_train_accuracy:
  assumes run: "train env bf flgs epochs mg s = (Inr (), evs, s')"
    and ep: "epoch_body env bf flgs mg acc e s0 = (Inr (), evs0, s1)"
  shows "filter (\<lambda>(msg, args). msg = ''Epoch Train Accuracy %.4f'') (info_logs evs)
           = map (\<lambda>e. (''Epoch Train Accuracy %.4f'', [AFloat (Fin 0)])) [1..epochs]
    \<and> (\<exists>ta va.
          accuracy_score (accumulated_preds Training evs0) (accumulated_labels Training evs0)
            = Inr ta
        \<and> accuracy_score (accumulated_preds Validation evs0) (accumulated_labels Validation evs0)
            = Inr va
        \<and> scalars ''Accuracy/train'' evs0 = [(ta, e)]
        \<and> filter (\<lambda>(msg, args). msg \<noteq> ''Saved model files to %s''
                                \<and> msg \<noteq> ''Saved model at epoch {epoch}'') (info_logs evs0)
            = [(''Epoch Train Accuracy %.4f'', [AFloat acc]),
               (''Test Accuracy %.4f'', [AFloat va]),
               (''Epoch %d, Loss %.4f'',
                [AInt e, AFloat (fold (\<lambda>l a. fadd a l) (loss_items evs0) (Fin 0))])])"
proof -
  from train_shape[OF run] obtain evs1 where
    lp: "epoch_loop env bf flgs epochs mg (Fin 0) (s\<lparr>training := True\<rparr>) = (Inr (Fin 0), evs1, s')"
    and evs: "evs = WriterOpen ''tensorboard'' # ModelTrain # evs1 @ [WriterClose]"
    by auto
  have il: "info_logs evs = info_logs evs1"
    unfolding evs by (rule run_observation) simp_all
  have "filter (\<lambda>(msg, args). msg = ''Epoch Train Accuracy %.4f'') (info_logs evs1)
           = concat (map (\<lambda>e. [(''Epoch Train Accuracy %.4f'', [AFloat (Fin 0)])]) [1..epochs])"
    using epoch_loop_proj[where
        h = "\<lambda>evs. filter (\<lambda>(msg, args). msg = ''Epoch Train Accuracy %.4f'') (info_logs evs)"
        and Q = "\<lambda>_. True" and g = "\<lambda>e. [(''Epoch Train Accuracy %.4f'', [AFloat (Fin 0)])]"
        and m = True, OF _ _ _ _ lp]
    by (simp add: epoch_events_info_logs)
  then have a: "filter (\<lambda>(msg, args). msg = ''Epoch Train Accuracy %.4f'') (info_logs evs)
           = map (\<lambda>e. (''Epoch Train Accuracy %.4f'', [AFloat (Fin 0)])) [1..epochs]"
    by (simp add: il)
  from epoch_body_shape[OF ep] obtain xs ys ta va where
    sh: "evs0 = epoch_events (training s0) bf flgs mg acc e xs ys ta va"
      "accuracy_score (concat (map (fst \<circ> snd) xs)) (concat (map (snd \<circ> snd) xs)) = Inr ta"
      "accuracy_score (concat (map fst ys)) (concat (map snd ys)) = Inr va"
    by blast
  have fm: "fold (\<lambda>x a. fadd a (fst x)) xs (Fin 0) = fold (\<lambda>l a. fadd a l) (map fst xs) (Fin 0)"
    by (simp add: fold_map comp_def)
  have b: "accuracy_score (accumulated_preds Training evs0) (accumulated_labels Training evs0)
            = Inr ta
        \<and> accuracy_score (accumulated_preds Validation evs0) (accumulated_labels Validation evs0)
            = Inr va
        \<and> scalars ''Accuracy/train'' evs0 = [(ta, e)]
        \<and> filter (\<lambda>(msg, args). msg \<noteq> ''Saved model files to %s''
                                \<and> msg \<noteq> ''Saved model at epoch {epoch}'') (info_logs evs0)
            = [(''Epoch Train Accuracy %.4f'', [AFloat acc]),
               (''Test Accuracy %.4f'', [AFloat va]),
               (''Epoch %d, Loss %.4f'',
                [AInt e, AFloat (fold (\<lambda>l a. fadd a l) (loss_items evs0) (Fin 0))])]"
    unfolding sh(1)
    by (simp add: epoch_events_accumulated epoch_events_scalars epoch_events_info_logs
          epoch_events_loss_items sh(2,3) fm)
  from a b show ?thesis by blast
qed

theorem log_reports_variable_not_train_accuracy_witness:
  "train demo_torch False demo_flags 2 (Fin 10) demo_trainer
     = (Inr (), WriterOpen ''tensorboard'' # ModelTrain # (demo_epoch1 @ demo_epoch2)
                  @ [WriterClose], \<lparr>training = True, fw = 4\<rparr>)
   \<and> epoch_body demo_torch False demo_flags (Fin 10) (Fin 0) 1 \<lparr>training = True, fw = 0\<rparr>
       = (Inr (), demo_epoch1, \<lparr>training = True, fw = 2\<rparr>)
   \<and> filter (\<lambda>(msg, args). msg = ''Epoch Train Accuracy %.4f'')
        (info_logs (WriterOpen ''tensorboard'' # ModelTrain # (demo_epoch1 @ demo_epoch2)
                  @ [WriterClose]))
      = [(''Epoch Train Accuracy %.4f'', [AFloat (Fin 0)]),
         (''Epoch Train Accuracy %.4f'', [AFloat (Fin 0)])]
   \<and> scalars ''Accuracy/train'' demo_epoch1 = [(Fin 1, 1)]
   \<and> accuracy_score (accumulated_preds Training demo_epoch1)
        (accumulated_labels Training demo_epoch1) = Inr (Fin 1)"
proof -
  have up: "[1..2::int] = [1, 2]" by (simp add: upto_rec1)
  note th = log_reports_variable_not_train_accuracy[OF demo_run demo_epoch_1, unfolded up]
  have a: "filter (\<lambda>(msg, args). msg = ''Epoch Train Accuracy %.4f'')
        (info_logs (WriterOpen ''tensorboard'' # ModelTrain # (demo_epoch1 @ demo_epoch2)
                  @ [WriterClose]))
      = [(''Epoch Train Accuracy %.4f'', [AFloat (Fin 0)]),
         (''Epoch Train Accuracy %.4f'', [AFloat (Fin 0)])]"
    using th[THEN conjunct1] by simp
  from th[THEN conjunct2] obtain ta where
    ta: "accuracy_score (accumulated_preds Training demo_epoch1)
           (accumulated_labels Training demo_epoch1) = Inr ta"
      "scalars ''Accuracy/train'' demo_epoch1 = [(ta, 1)]"
    by blast
  have "scalars ''Accuracy/train'' demo_epoch1 = [(Fin 1, 1)]"
    by (simp add: demo_epoch1_def)
  with ta have "ta = Fin 1" by simp
  with ta demo_run demo_epoch_1 a show ?thesis by blast
qed



text \<open>
  C10. In a run that returns, the module is put in training mode once, before the epoch
  loop, and never in evaluation mode; every forward pass, those of the validation phase
  included, runs with the module in training mode, and the run ends in that mode.
\<close>

theorem validation_runs_in_training_mode:
  assumes run: "train env bf flgs epochs mg s = (Inr (), evs, s')"
  shows "take 2 evs = [WriterOpen ''tensorboard'', ModelTrain]
    \<and> filter (\<lambda>ev. ev = ModelTrain \<or> ev = ModelEval) evs = [ModelTrain]
    \<and> (\<forall>m a l. Forward m a l \<in> set evs \<longrightarrow> m)
    \<and> training s'"
proof -
  from train_shape[OF run] obtain evs0 where
    lp: "epoch_loop env bf flgs epochs mg (Fin 0) (s\<lparr>training := True\<rparr>) = (Inr (Fin 0), evs0, s')"
    and evs: "evs = WriterOpen ''tensorboard'' # ModelTrain # evs0 @ [WriterClose]"
    and tr: "training s'"
    by auto
  from epoch_loop_events_set[OF lp] have c:
    "\<forall>ev \<in> set evs0. ev \<noteq> ModelTrain \<and> ev \<noteq> ModelEval \<and> (\<forall>m a l. ev = Forward m a l \<longrightarrow> m)"
    by fastforce
  then have "filter (\<lambda>ev. ev = ModelTrain \<or> ev = ModelEval) evs0 = []"
    by (simp add: filter_empty_conv)
  then have a: "filter (\<lambda>ev. ev = ModelTrain \<or> ev = ModelEval) evs = [ModelTrain]"
    unfolding evs by simp
  have b: "\<forall>m a l. Forward m a l \<in> set evs \<longrightarrow> m"
    using c unfolding evs by auto
  from a b tr show ?thesis by (simp add: evs)
qed

theorem validation_runs_in_training_mode_witness:
  "train demo_torch False demo_flags 2 (Fin 10) demo_trainer
     = (Inr (), WriterOpen ''tensorboard'' # ModelTrain # (demo_epoch1 @ demo_epoch2)
                  @ [WriterClose], \<lparr>training = True, fw = 4\<rparr>)
   \<and> Forward True False False \<in> set (WriterOpen ''tensorboard'' # ModelTrain
                  # (demo_epoch1 @ demo_epoch2) @ [WriterClose])
   \<and> Forward False False False \<notin> set (WriterOpen ''tensorboard'' # ModelTrain
                  # (demo_epoch1 @ demo_epoch2) @ [WriterClose])
   \<and> training \<lparr>training = True, fw = 4::nat\<rparr>"
proof -
  note th = validation_runs_in_training_mode[OF demo_run]
  have a: "Forward True False False \<in> set (WriterOpen ''tensorboard'' # ModelTrain
                  # (demo_epoch1 @ demo_epoch2) @ [WriterClose])"
    by (simp add: demo_epoch1_def)
  have b: "Forward False False False \<notin> set (WriterOpen ''tensorboard'' # ModelTrain
                  # (demo_epoch1 @ demo_epoch2) @ [WriterClose])"
    using th[THEN conjunct2, THEN conjunct2, THEN conjunct1] by blast
  from demo_run a b th[THEN conjunct2, THEN conjunct2, THEN conjunct2] show ?thesis by blast
qed

end
